theory Spec2Isabelle
  imports
    Complex_Main
    "HOL-Library.Char_ord"
    "HOL-Library.List_Lexorder"
    "HOL-Library.Product_Lexorder"
    "HOL-Library.Multiset"
    "HOL-Library.Log_Nat"
begin

section \<open>Cells, text and calendar dates\<close>

text \<open>
  The silver-layer loader (\<^verbatim>\<open>scripts/silver/load_silver_layer.py\<close>) works on pandas
  frames. A frame is modelled as the list of its rows in frame order, a row as a record
  with one field per column the code touches, and a cell as an \<open>option\<close>: \<open>None\<close> is
  the missing value (SQL NULL, \<open>None\<close>, \<open>NaN\<close> or \<open>NaT\<close>). Text is ASCII text. A
  number is the rational it denotes; the arithmetic of the numeric columns is machine
  arithmetic (float64 or int64, see below), which rounds or wraps its results.
\<close>

type_synonym text_cell = "string option"
type_synonym num_cell = "rat option"

text \<open>A Python exception, with its message.\<close>

datatype py_exception = Exception string

text \<open>
  A calendar date is its proleptic Gregorian ordinal (day 1 is 0001-01-01), the number
  Python's \<^verbatim>\<open>date.toordinal()\<close> returns; subtracting a \<^verbatim>\<open>Timedelta(days=1)\<close> is
  subtracting 1.
\<close>

type_synonym date = int
type_synonym date_cell = "date option"

definition is_leap :: "int \<Rightarrow> bool" where
  "is_leap y \<longleftrightarrow> y mod 4 = 0 \<and> (y mod 100 \<noteq> 0 \<or> y mod 400 = 0)"

definition days_in_month :: "int \<Rightarrow> int \<Rightarrow> int" where
  "days_in_month y m =
     (if m = 2 then (if is_leap y then 29 else 28)
      else if m = 4 \<or> m = 6 \<or> m = 9 \<or> m = 11 then 30 else 31)"

definition days_before_year :: "int \<Rightarrow> int" where
  "days_before_year y = (y - 1) * 365 + (y - 1) div 4 - (y - 1) div 100 + (y - 1) div 400"

definition days_before_month :: "int \<Rightarrow> int \<Rightarrow> int" where
  "days_before_month y m = (\<Sum>k \<leftarrow> [1..<nat m]. days_in_month y (int k))"

definition ymd :: "int \<Rightarrow> int \<Rightarrow> int \<Rightarrow> date" where
  "ymd y m d = days_before_year y + days_before_month y m + d"

definition valid_ymd :: "int \<Rightarrow> int \<Rightarrow> int \<Rightarrow> bool" where
  "valid_ymd y m d \<longleftrightarrow> 1 \<le> y \<and> 1 \<le> m \<and> m \<le> 12 \<and> 1 \<le> d \<and> d \<le> days_in_month y m"

subsection \<open>Python string methods\<close>

definition is_digit :: "char \<Rightarrow> bool" where
  "is_digit c \<longleftrightarrow> (48::nat) \<le> of_char c \<and> of_char c \<le> (57::nat)"

definition digits_value :: "string \<Rightarrow> int" where
  "digits_value s = foldl (\<lambda>a c. 10 * a + (int (of_char c) - 48)) 0 s"

text \<open>\<^verbatim>\<open>s.split('.')[0]\<close>: the text before the first dot (all of it when there is none).\<close>

definition split_dot_first :: "string \<Rightarrow> string" where
  "split_dot_first s = takeWhile (\<lambda>c. c \<noteq> CHR ''.'') s"

section \<open>Sales lines: the fixed-width date parser\<close>

text \<open>
  \<^verbatim>\<open>pd.to_datetime(v, format='%Y%m%d', errors='coerce')\<close> on one string is the
  \<^verbatim>\<open>strptime\<close> of pandas: the string is matched from its start against the regular
  expression of the format, \<^verbatim>\<open>(\d\d\d\d)(1[0-2]|0[1-9]|[1-9])(3[0-1]|[1-2]\d|0[1-9]|[1-9]| [1-9])\<close>,
  the first match in the order of the alternatives is taken, and the parse fails when
  the match leaves characters over or when year, month and day name no day of the
  calendar; a failure is coerced to \<open>NaT\<close>. So the month and the day may have one
  digit, and the day may be a space and a digit: the parse takes \<^verbatim>\<open>2023011\<close> and
  \<^verbatim>\<open>202301 1\<close> for 2023-01-01. The bounds pandas puts on the years of a timestamp
  are not modelled.

  The theorems about the loader take the strict parser as a parameter, as they take the
  general parser; \<open>strptime_Ymd\<close> is the instance they are evaluated with.
\<close>

definition digit_value :: "char \<Rightarrow> int" where
  "digit_value c = int (of_char c) - 48"

definition is_digit_1_9 :: "char \<Rightarrow> bool" where
  "is_digit_1_9 c \<longleftrightarrow> (49::nat) \<le> of_char c \<and> of_char c \<le> (57::nat)"

text \<open>
  The matches of the month group and of the day group at the start of a text, in the
  order the regular expression tries them: the value read and the text left.
\<close>

definition month_matches :: "string \<Rightarrow> (int \<times> string) list" where
  "month_matches s =
     (case s of
        [] \<Rightarrow> []
      | [a] \<Rightarrow> (if is_digit_1_9 a then [(digit_value a, [])] else [])
      | a # b # t \<Rightarrow>
          (if a = CHR ''1'' \<and> b \<in> set ''012'' then [(10 + digit_value b, t)] else [])
          @ (if a = CHR ''0'' \<and> is_digit_1_9 b then [(digit_value b, t)] else [])
          @ (if is_digit_1_9 a then [(digit_value a, b # t)] else []))"

definition day_matches :: "string \<Rightarrow> (int \<times> string) list" where
  "day_matches s =
     (case s of
        [] \<Rightarrow> []
      | [a] \<Rightarrow> (if is_digit_1_9 a then [(digit_value a, [])] else [])
      | a # b # t \<Rightarrow>
          (if a = CHR ''3'' \<and> b \<in> set ''01'' then [(30 + digit_value b, t)] else [])
          @ (if a \<in> set ''12'' \<and> is_digit b then [(10 * digit_value a + digit_value b, t)] else [])
          @ (if a = CHR ''0'' \<and> is_digit_1_9 b then [(digit_value b, t)] else [])
          @ (if is_digit_1_9 a then [(digit_value a, b # t)] else [])
          @ (if a = CHR '' '' \<and> is_digit_1_9 b then [(digit_value b, t)] else []))"

definition strptime_Ymd :: "string \<Rightarrow> date_cell" where
  "strptime_Ymd s =
     (if length s < 4 \<or> \<not> list_all is_digit (take 4 s) then None
      else
        (case concat (map (\<lambda>(m, r). map (\<lambda>(d, r'). (m, d, r')) (day_matches r))
                        (month_matches (drop 4 s))) of
           [] \<Rightarrow> None
         | (m, d, rest) # others \<Rightarrow>
             (let y = digits_value (take 4 s)
              in if rest \<noteq> [] \<or> \<not> valid_ymd y m d then None else Some (ymd y m d))))"

text \<open>
  \<^verbatim>\<open>clean_yyyymmdd\<close> (lines 262 to 265) works on a whole column. A cell of the column
  is missing or has a textual form, what \<^verbatim>\<open>astype(str)\<close> makes of it. For one cell:
  the text is cut at the first dot (line 263), a text whose length is not 8 and a
  missing cell are replaced by \<open>None\<close> (line 264), and what is left is parsed (line
  265), \<open>None\<close> giving \<open>NaT\<close>.
\<close>

definition isna :: "'a option \<Rightarrow> bool" where
  "isna c \<longleftrightarrow> c = None"

definition yyyymmdd_cell :: "(string \<Rightarrow> date_cell) \<Rightarrow> text_cell \<Rightarrow> date_cell" where
  "yyyymmdd_cell strptime c =
     (let col = map_option split_dot_first c;
          col' = (case col of None \<Rightarrow> None | Some s \<Rightarrow> if length s \<noteq> 8 then None else Some s)
      in case col' of None \<Rightarrow> None | Some s \<Rightarrow> strptime s)"

text \<open>
  For the column: when the column has rows and every cell of it is missing, the column
  that \<^verbatim>\<open>.str[0]\<close> returns at line 263 holds no text, and the \<^verbatim>\<open>.str\<close> accessor of
  line 264 refuses it (pandas 3); \<^verbatim>\<open>clean_yyyymmdd\<close> raises. On any other column it
  returns the column of the cleaned cells.
\<close>

definition str_accessor_error :: py_exception where
  "str_accessor_error = Exception ''Can only use .str accessor with string values''"

definition clean_yyyymmdd ::
  "(string \<Rightarrow> date_cell) \<Rightarrow> text_cell list \<Rightarrow> py_exception + date_cell list" where
  "clean_yyyymmdd strptime col =
     (if col \<noteq> [] \<and> list_all isna col then Inl str_accessor_error
      else Inr (map (yyyymmdd_cell strptime) col))"

section \<open>Machine numbers\<close>

text \<open>
  The numeric columns of \<^verbatim>\<open>crm_sales_details\<close> are float64 columns, or int64 columns
  when no cell of theirs is missing and every value is whole. A float64 result is the
  exact result rounded to 53 significant bits, ties to even (the exponent is not
  bounded here: overflow to \<open>inf\<close> and the subnormal numbers are outside the model);
  an int64 product wraps around modulo \<open>2 ^ 64\<close>; dividing int64 columns converts both
  sides to float64 and divides there.
\<close>

definition round_half_even :: "rat \<Rightarrow> int" where
  "round_half_even x =
     (let f = \<lfloor>x\<rfloor>; d = x - of_int f
      in if d < 1 / 2 then f else if 1 / 2 < d then f + 1 else if even f then f else f + 1)"

text \<open>\<open>binade x\<close> is the exponent \<open>e\<close> with \<open>2 ^ e \<le> |x| < 2 ^ (e + 1)\<close>.\<close>

definition binade :: "rat \<Rightarrow> int" where
  "binade x =
     (let (a, b) = quotient_of \<bar>x\<bar>; e0 = bitlen a - bitlen b
      in if 2 powi e0 \<le> \<bar>x\<bar> then e0 else e0 - 1)"

definition float64 :: "rat \<Rightarrow> rat" where
  "float64 x =
     (if x = 0 then 0
      else (let u = 2 powi (binade x - 52) in of_int (round_half_even (x / u)) * u))"

definition int64 :: "rat \<Rightarrow> rat" where
  "int64 x = of_int ((\<lfloor>x\<rfloor> + 2 ^ 63) mod 2 ^ 64 - 2 ^ 63)"

text \<open>The three operations the reconciler applies to a numeric column.\<close>

record num_ops =
  abs_op :: "rat \<Rightarrow> rat"
  mul_op :: "rat \<Rightarrow> rat \<Rightarrow> rat"
  div_op :: "rat \<Rightarrow> rat \<Rightarrow> rat"

definition float64_ops :: num_ops where
  "float64_ops =
     \<lparr>abs_op = (\<lambda>x. \<bar>x\<bar>),
      mul_op = (\<lambda>x y. float64 (x * y)),
      div_op = (\<lambda>x y. float64 (x / y))\<rparr>"

definition int64_ops :: num_ops where
  "int64_ops =
     \<lparr>abs_op = (\<lambda>x. int64 \<bar>x\<bar>),
      mul_op = (\<lambda>x y. int64 (x * y)),
      div_op = (\<lambda>x y. float64 (float64 x / float64 y))\<rparr>"

section \<open>Sales lines: reconciling quantity, price and amount\<close>

subsection \<open>Column operations, one cell at a time\<close>

text \<open>
  pandas compares and computes with \<open>NaN\<close> cell by cell: \<open>isna\<close> is true of a missing
  cell only, \<open>\<le>\<close> and \<open>==\<close> are false when a side is missing, \<open>!=\<close> is true then,
  and arithmetic on a missing cell is missing. \<open>fillna\<close> and \<open>replace\<close> are written
  for one cell.
\<close>

definition fillna :: "'a \<Rightarrow> 'a option \<Rightarrow> 'a option" where
  "fillna d c = (case c of None \<Rightarrow> Some d | Some v \<Rightarrow> Some v)"

definition cell_abs :: "num_ops \<Rightarrow> num_cell \<Rightarrow> num_cell" where
  "cell_abs ops c = map_option (abs_op ops) c"

definition cell_mul :: "num_ops \<Rightarrow> num_cell \<Rightarrow> num_cell \<Rightarrow> num_cell" where
  "cell_mul ops a b = (case (a, b) of (Some x, Some y) \<Rightarrow> Some (mul_op ops x y) | _ \<Rightarrow> None)"

text \<open>
  Division: a missing side gives \<open>NaN\<close>. A zero divisor would give \<open>inf\<close> or
  \<open>NaN\<close>; the code never divides by zero (it replaces a zero quantity by \<open>NaN\<close>
  first), and the model returns missing there.
\<close>

definition cell_div :: "num_ops \<Rightarrow> num_cell \<Rightarrow> num_cell \<Rightarrow> num_cell" where
  "cell_div ops a b =
     (case (a, b) of
        (Some x, Some y) \<Rightarrow> (if y = 0 then None else Some (div_op ops x y))
      | _ \<Rightarrow> None)"

definition cell_le :: "num_cell \<Rightarrow> rat \<Rightarrow> bool" where
  "cell_le a k = (case a of None \<Rightarrow> False | Some x \<Rightarrow> x \<le> k)"

definition cell_eq :: "num_cell \<Rightarrow> num_cell \<Rightarrow> bool" where
  "cell_eq a b = (case (a, b) of (Some x, Some y) \<Rightarrow> x = y | _ \<Rightarrow> False)"

definition cell_ne :: "num_cell \<Rightarrow> num_cell \<Rightarrow> bool" where
  "cell_ne a b \<longleftrightarrow> \<not> cell_eq a b"

definition replace_zero_nan :: "num_cell \<Rightarrow> num_cell" where
  "replace_zero_nan c = (if c = Some 0 then None else c)"

definition np_where :: "bool \<Rightarrow> 'a \<Rightarrow> 'a \<Rightarrow> 'a" where
  "np_where c a b = (if c then a else b)"

subsection \<open>The rows of \<^verbatim>\<open>crm_sales_details\<close>\<close>

text \<open>
  The three date columns hold text in the bronze table (\<open>'d = text_cell\<close>, the cell's
  textual form or missing) and dates in the silver table (\<open>'d = date_cell\<close>). The
  order number is the first part of the line's key; the loader does not touch it. The
  product key and the customer id pass through untouched as well and are left out.
\<close>

record 'd sales_details =
  sls_ord_num :: text_cell
  sls_order_dt :: 'd
  sls_ship_dt :: 'd
  sls_due_dt :: 'd
  sls_sales :: num_cell
  sls_quantity :: num_cell
  sls_price :: num_cell

text \<open>
  Lines 278 to 298 of the loader, for one row: the candidate amount from quantity and
  price (missing counted as 0), the amount replaced where it is missing, not positive or
  different from the candidate, the price recomputed from the new amount where it is
  missing or not positive, and the last \<open>fillna(0)\<close> on amount and price. The quantity
  column is not written.
\<close>

definition reconcile_sales :: "num_ops \<Rightarrow> 'd sales_details \<Rightarrow> 'd sales_details" where
  "reconcile_sales ops r =
     (let calc_sales =
            cell_mul ops (fillna 0 (sls_quantity r)) (cell_abs ops (fillna 0 (sls_price r)));
          sales_condition =
            (isna (sls_sales r) \<or> cell_le (sls_sales r) 0 \<or> cell_ne (sls_sales r) calc_sales);
          r1 = r\<lparr>sls_sales := np_where sales_condition calc_sales (sls_sales r)\<rparr>;
          price_condition = (isna (sls_price r1) \<or> cell_le (sls_price r1) 0);
          calc_price = cell_div ops (sls_sales r1) (replace_zero_nan (sls_quantity r1));
          r2 = r1\<lparr>sls_price := np_where price_condition calc_price (sls_price r1)\<rparr>
      in r2\<lparr>sls_sales := fillna 0 (sls_sales r2), sls_price := fillna 0 (sls_price r2)\<rparr>)"




section \<open>Text columns: the value normaliser\<close>

text \<open>
  \<^verbatim>\<open>str.upper\<close>, \<^verbatim>\<open>str.strip\<close> and \<^verbatim>\<open>str.title\<close> on ASCII text. Python's
  whitespace below 128 is the characters 9 to 13 and 28 to 32.
\<close>

definition is_lower :: "char \<Rightarrow> bool" where
  "is_lower c \<longleftrightarrow> (97::nat) \<le> of_char c \<and> of_char c \<le> (122::nat)"

definition is_upper :: "char \<Rightarrow> bool" where
  "is_upper c \<longleftrightarrow> (65::nat) \<le> of_char c \<and> of_char c \<le> (90::nat)"

definition upper_char :: "char \<Rightarrow> char" where
  "upper_char c = (if is_lower c then char_of (of_char c - (32::nat)) else c)"

definition lower_char :: "char \<Rightarrow> char" where
  "lower_char c = (if is_upper c then char_of (of_char c + (32::nat)) else c)"

definition is_space :: "char \<Rightarrow> bool" where
  "is_space c \<longleftrightarrow> ((9::nat) \<le> of_char c \<and> of_char c \<le> (13::nat))
     \<or> ((28::nat) \<le> of_char c \<and> of_char c \<le> (32::nat))"

definition str_upper :: "string \<Rightarrow> string" where
  "str_upper s = map upper_char s"

definition str_strip :: "string \<Rightarrow> string" where
  "str_strip s = rev (dropWhile is_space (rev (dropWhile is_space s)))"

text \<open>
  \<^verbatim>\<open>str.title\<close>: a letter that follows a letter is lower-cased, any other letter is
  upper-cased.
\<close>

fun title_from :: "bool \<Rightarrow> string \<Rightarrow> string" where
  "title_from prev [] = []"
| "title_from prev (c # cs) =
     (if prev then lower_char c else upper_char c) # title_from (is_lower c \<or> is_upper c) cs"

definition str_title :: "string \<Rightarrow> string" where
  "str_title s = title_from False s"

text \<open>
  The \<^verbatim>\<open>.str\<close> accessor keeps a missing cell missing. \<^verbatim>\<open>Series.replace\<close> with a
  dict replaces a cell that equals a key by the key's value and leaves every other cell
  as it is; \<^verbatim>\<open>replace(a, b)\<close> is the dict with the one key.
\<close>

definition replace_dict :: "(string \<times> string) list \<Rightarrow> text_cell \<Rightarrow> text_cell" where
  "replace_dict tbl c =
     map_option (\<lambda>s. case map_of tbl s of None \<Rightarrow> s | Some v \<Rightarrow> v) c"

definition marital_status_map :: "(string \<times> string) list" where
  "marital_status_map =
     [(''M'', ''Married''), (''MARRIED'', ''Married''), (''S'', ''Single''), (''SINGLE'', ''Single'')]"

definition cst_gndr_map :: "(string \<times> string) list" where
  "cst_gndr_map =
     [(''M'', ''Male''), (''MALE'', ''Male''), (''F'', ''Female''), (''FEMALE'', ''Female'')]"

definition gen_map :: "(string \<times> string) list" where
  "gen_map =
     [(''M'', ''Male''), (''MALE'', ''Male''), (''F'', ''Female''), (''FEMALE'', ''Female''),
      (''UNKNOWN'', ''Unknown''), ([], ''Unknown'')]"

definition prd_line_map :: "(string \<times> string) list" where
  "prd_line_map =
     [(''M'', ''Mountain''), (''MOUNTAIN'', ''Mountain''), (''R'', ''Road''), (''ROAD'', ''Road''),
      (''S'', ''Other Sales''), (''OTHER SALES'', ''Other Sales''),
      (''T'', ''Touring''), (''TOURING'', ''Touring'')]"

definition cntry_map :: "(string \<times> string) list" where
  "cntry_map =
     [(''US'', ''United States''), (''USA'', ''United States''), (''DE'', ''Germany''),
      ([], ''Unknown''), (''FEMALE'', ''Unknown'')]"

text \<open>Lines 109 to 119: the name columns (strip, then the empty text replaced).\<close>

definition clean_name :: "text_cell \<Rightarrow> text_cell" where
  "clean_name c = replace_dict [([], ''Unknown'')] (map_option str_strip c)"

text \<open>Lines 122 to 133 and 136 to 147: upper, strip, replace, \<open>fillna('Unknown')\<close>.\<close>

definition clean_marital_status :: "text_cell \<Rightarrow> text_cell" where
  "clean_marital_status c =
     fillna ''Unknown''
       (replace_dict marital_status_map (map_option str_strip (map_option str_upper c)))"

definition clean_cst_gndr :: "text_cell \<Rightarrow> text_cell" where
  "clean_cst_gndr c =
     fillna ''Unknown''
       (replace_dict cst_gndr_map (map_option str_strip (map_option str_upper c)))"

text \<open>Lines 355 to 368: strip, upper, replace, \<open>fillna('Unknown')\<close>.\<close>

definition clean_gen :: "text_cell \<Rightarrow> text_cell" where
  "clean_gen c =
     fillna ''Unknown''
       (replace_dict gen_map (map_option str_upper (map_option str_strip c)))"

text \<open>Lines 215 to 230.\<close>

definition clean_prd_line :: "text_cell \<Rightarrow> text_cell" where
  "clean_prd_line c =
     fillna ''Unknown''
       (replace_dict prd_line_map (map_option str_strip (map_option str_upper c)))"

text \<open>Lines 415 to 427: strip, upper, replace, title, \<open>fillna('Unknown')\<close>.\<close>

definition clean_cntry :: "text_cell \<Rightarrow> text_cell" where
  "clean_cntry c =
     fillna ''Unknown''
       (map_option str_title
          (replace_dict cntry_map (map_option str_upper (map_option str_strip c))))"

section \<open>Frame operations\<close>

text \<open>\<^verbatim>\<open>df.dropna(subset=[col])\<close>: the rows whose cell in that column is not missing.\<close>

definition dropna :: "('r \<Rightarrow> 'k option) \<Rightarrow> 'r list \<Rightarrow> 'r list" where
  "dropna col df = filter (\<lambda>r. \<not> isna (col r)) df"

text \<open>
  \<^verbatim>\<open>df.drop_duplicates(subset=col)\<close> with the default \<^verbatim>\<open>keep='first'\<close>: of the rows
  that agree on the column, the first in frame order stays.
\<close>

fun drop_duplicates :: "('r \<Rightarrow> 'k) \<Rightarrow> 'r list \<Rightarrow> 'r list" where
  "drop_duplicates col [] = []"
| "drop_duplicates col (r # rs) = r # drop_duplicates col (filter (\<lambda>s. col s \<noteq> col r) rs)"

text \<open>
  \<^verbatim>\<open>df.sort_values(by=[a, b], ascending=[...])\<close> sorts stably on the columns in
  lexicographic order and puts the missing cells of a column last, whether the column is
  ascending or descending. A column becomes a sort key: the flag 0 or 1 first (1 for
  missing), then the value, negated for a descending column.
\<close>

definition asc_key :: "'a option \<Rightarrow> nat \<times> 'a list" where
  "asc_key c = (case c of None \<Rightarrow> (1, []) | Some v \<Rightarrow> (0, [v]))"

definition desc_key :: "int option \<Rightarrow> nat \<times> int list" where
  "desc_key c = (case c of None \<Rightarrow> (1, []) | Some v \<Rightarrow> (0, [- v]))"

text \<open>
  \<^verbatim>\<open>pd.to_datetime(col, errors='coerce').dt.date\<close> on one cell. What pandas accepts
  as a date is the library's business: the parser of a text is a parameter, and a
  missing cell stays missing.
\<close>

definition to_datetime_date :: "(string \<Rightarrow> date_cell) \<Rightarrow> text_cell \<Rightarrow> date_cell" where
  "to_datetime_date parse c = (case c of None \<Rightarrow> None | Some s \<Rightarrow> parse s)"

text \<open>
  \<^verbatim>\<open>df.groupby(key)[col].shift(-1)\<close>: for each row, the cell of the next row of the
  same group in frame order, missing when there is none (and for a row whose key is
  missing: \<open>groupby\<close> drops it).
\<close>

fun groupby_shift_next :: "('r \<Rightarrow> 'k option) \<Rightarrow> ('r \<Rightarrow> 'v option) \<Rightarrow> 'r list \<Rightarrow> 'v option list" where
  "groupby_shift_next key col [] = []"
| "groupby_shift_next key col (r # rs) =
     (if isna (key r) then None
      else (case find (\<lambda>s. key s = key r) rs of None \<Rightarrow> None | Some s \<Rightarrow> col s))
     # groupby_shift_next key col rs"

section \<open>The entity pipelines\<close>

subsection \<open>Customer: \<^verbatim>\<open>crm_customer_info\<close>\<close>

text \<open>
  The creation date is text in the bronze table (\<open>'d = text_cell\<close>) and a date in the
  silver table (\<open>'d = date_cell\<close>).
\<close>

record 'd customer_info =
  cust_id :: "int option"
  cst_firstname :: text_cell
  cst_lastname :: text_cell
  cst_marital_status :: text_cell
  cst_gndr :: text_cell
  cst_create_date :: 'd

definition convert_create_date ::
  "(string \<Rightarrow> date_cell) \<Rightarrow> text_cell customer_info \<Rightarrow> date_cell customer_info" where
  "convert_create_date parse r =
     \<lparr>cust_id = cust_id r, cst_firstname = cst_firstname r, cst_lastname = cst_lastname r,
      cst_marital_status = cst_marital_status r, cst_gndr = cst_gndr r,
      cst_create_date = to_datetime_date parse (cst_create_date r)\<rparr>"

definition clean_customer_text :: "'d customer_info \<Rightarrow> 'd customer_info" where
  "clean_customer_text r =
     r\<lparr>cst_firstname := clean_name (cst_firstname r),
       cst_lastname := clean_name (cst_lastname r),
       cst_marital_status := clean_marital_status (cst_marital_status r),
       cst_gndr := clean_cst_gndr (cst_gndr r)\<rparr>"

text \<open>Lines 92 to 150 of \<^verbatim>\<open>load_crm_customer_info\<close>: the frame before it is stamped.\<close>

definition clean_crm_customer_info ::
  "(string \<Rightarrow> date_cell) \<Rightarrow> text_cell customer_info list \<Rightarrow> date_cell customer_info list" where
  "clean_crm_customer_info parse customer_info =
     (let df1 = dropna cust_id customer_info;
          df2 = map (convert_create_date parse) df1;
          df3 = sort_key (\<lambda>r. (asc_key (cust_id r), desc_key (cst_create_date r))) df2;
          df4 = drop_duplicates cust_id df3
      in map clean_customer_text df4)"

subsection \<open>Product: \<^verbatim>\<open>crm_product_info\<close>\<close>

record 'd product_info =
  prd_key :: text_cell
  prd_cost :: num_cell
  prd_line :: text_cell
  prd_start_dt :: 'd
  prd_end_dt :: 'd

text \<open>The silver rows carry the derived \<^verbatim>\<open>category_id\<close> column as well.\<close>

record product_info_silver = "date_cell product_info" +
  category_id :: text_cell

definition convert_product_dates ::
  "(string \<Rightarrow> date_cell) \<Rightarrow> text_cell product_info \<Rightarrow> date_cell product_info" where
  "convert_product_dates parse r =
     \<lparr>prd_key = prd_key r, prd_cost = prd_cost r, prd_line = prd_line r,
      prd_start_dt = to_datetime_date parse (prd_start_dt r),
      prd_end_dt = to_datetime_date parse (prd_end_dt r)\<rparr>"

text \<open>
  Lines 190 to 195: the end date of a row becomes the start date of the next row of its
  key group less one day (\<open>NaT\<close> less a day is \<open>NaT\<close>).
\<close>

definition derive_end_dt :: "date_cell product_info list \<Rightarrow> date_cell product_info list" where
  "derive_end_dt df =
     map2 (\<lambda>r nxt. r\<lparr>prd_end_dt := map_option (\<lambda>d. d - 1) nxt\<rparr>)
       df (groupby_shift_next prd_key prd_start_dt df)"

text \<open>Lines 187 to 195: the frame sorted on key and start date, then the end dates.\<close>

definition scd_window :: "date_cell product_info list \<Rightarrow> date_cell product_info list" where
  "scd_window df =
     derive_end_dt (sort_key (\<lambda>r. (asc_key (prd_key r), asc_key (prd_start_dt r))) df)"

text \<open>
  Lines 198 to 230: \<^verbatim>\<open>category_id\<close> from the first five characters of the key with
  \<^verbatim>\<open>-\<close> turned into \<^verbatim>\<open>_\<close>, the key cut to what follows its sixth character, a
  missing cost set to 0, the product line normalised.
\<close>

definition split_product_key :: "date_cell product_info \<Rightarrow> product_info_silver" where
  "split_product_key r =
     \<lparr>prd_key = map_option (drop 6) (prd_key r),
      prd_cost = fillna 0 (prd_cost r),
      prd_line = clean_prd_line (prd_line r),
      prd_start_dt = prd_start_dt r,
      prd_end_dt = prd_end_dt r,
      category_id =
        map_option (\<lambda>s. map (\<lambda>c. if c = CHR ''-'' then CHR ''_'' else c) (take 5 s)) (prd_key r)\<rparr>"

definition clean_crm_product_info ::
  "(string \<Rightarrow> date_cell) \<Rightarrow> text_cell product_info list \<Rightarrow> product_info_silver list" where
  "clean_crm_product_info parse product_info =
     (let df1 = dropna prd_key product_info;
          df2 = map (convert_product_dates parse) df1;
          df3 = scd_window df2
      in map split_product_key df3)"

subsection \<open>Sales lines: \<^verbatim>\<open>crm_sales_details\<close>\<close>

text \<open>
  Lines 268 to 270 clean the three date columns one after the other; each call may
  raise. Lines 278 to 298 then reconcile the rows. No row is dropped: the frame is not
  filtered on its order number.
\<close>

definition with_dates ::
  "text_cell sales_details \<Rightarrow> date_cell \<Rightarrow> date_cell \<Rightarrow> date_cell \<Rightarrow> date_cell sales_details" where
  "with_dates r order_dt ship_dt due_dt =
     \<lparr>sls_ord_num = sls_ord_num r,
      sls_order_dt = order_dt, sls_ship_dt = ship_dt, sls_due_dt = due_dt,
      sls_sales = sls_sales r, sls_quantity = sls_quantity r, sls_price = sls_price r\<rparr>"

definition clean_crm_sales_details ::
  "(string \<Rightarrow> date_cell) \<Rightarrow> num_ops \<Rightarrow> text_cell sales_details list
     \<Rightarrow> py_exception + date_cell sales_details list" where
  "clean_crm_sales_details strptime ops sales_details =
     (case clean_yyyymmdd strptime (map sls_order_dt sales_details) of
        Inl x \<Rightarrow> Inl x
      | Inr order_dt \<Rightarrow>
     (case clean_yyyymmdd strptime (map sls_ship_dt sales_details) of
        Inl x \<Rightarrow> Inl x
      | Inr ship_dt \<Rightarrow>
     (case clean_yyyymmdd strptime (map sls_due_dt sales_details) of
        Inl x \<Rightarrow> Inl x
      | Inr due_dt \<Rightarrow>
          Inr (map (reconcile_sales ops)
                 (map (\<lambda>(r, a, b, c). with_dates r a b c)
                    (zip sales_details (zip order_dt (zip ship_dt due_dt))))))))"

subsection \<open>Customer demographics and locations: \<^verbatim>\<open>erp_customer_az12\<close>, \<^verbatim>\<open>erp_location_a101\<close>\<close>

text \<open>Both ERP tables are keyed by a text column \<^verbatim>\<open>cid\<close>.\<close>

record erp_keyed =
  cid :: text_cell

record 'd customer_az12 = erp_keyed +
  bdate :: 'd
  gen :: text_cell

record location_a101 = erp_keyed +
  cntry :: text_cell

text \<open>Lines 337 to 341: a key that starts with \<^verbatim>\<open>NAS\<close> loses these three characters.\<close>

definition strip_nas :: "string \<Rightarrow> string" where
  "strip_nas s = (if take 3 s = ''NAS'' then drop 3 s else s)"

text \<open>Lines 337 to 347, for one row: the key stripped and the birth date parsed.\<close>

definition convert_az12_row ::
  "(string \<Rightarrow> date_cell) \<Rightarrow> text_cell customer_az12 \<Rightarrow> date_cell customer_az12" where
  "convert_az12_row parse r =
     \<lparr>cid = map_option strip_nas (cid r),
      bdate = to_datetime_date parse (bdate r),
      gen = gen r\<rparr>"

text \<open>Line 352: a birth date after today's date is set to \<open>NaT\<close>.\<close>

definition drop_future :: "date \<Rightarrow> date_cell \<Rightarrow> date_cell" where
  "drop_future today c = (case c of None \<Rightarrow> None | Some d \<Rightarrow> if d > today then None else Some d)"

text \<open>
  The comparison of line 352 is between the column of \<^verbatim>\<open>date\<close> objects and
  \<^verbatim>\<open>today\<close>. When the frame has rows and no birth date of it parsed, the column
  holds \<open>NaT\<close> only, pandas stores it as a datetime column, and comparing it with a
  \<^verbatim>\<open>date\<close> raises \<^verbatim>\<open>TypeError\<close>.
\<close>

definition bdate_compare_error :: py_exception where
  "bdate_compare_error = Exception ''Invalid comparison between dtype=datetime64 and date''"

text \<open>Lines 331 to 371 of \<^verbatim>\<open>load_erp_customer_az12\<close>.\<close>

definition clean_erp_customer_az12 ::
  "(string \<Rightarrow> date_cell) \<Rightarrow> date \<Rightarrow> text_cell customer_az12 list
     \<Rightarrow> py_exception + date_cell customer_az12 list" where
  "clean_erp_customer_az12 parse today customer_az12 =
     (let df1 = dropna cid customer_az12;
          df2 = drop_duplicates cid df1;
          df3 = map (convert_az12_row parse) df2
      in if df3 \<noteq> [] \<and> list_all (\<lambda>r. isna (bdate r)) df3 then Inl bdate_compare_error
         else Inr (map (\<lambda>r. r\<lparr>bdate := drop_future today (bdate r), gen := clean_gen (gen r)\<rparr>) df3))"

definition clean_location_row :: "location_a101 \<Rightarrow> location_a101" where
  "clean_location_row r =
     r\<lparr>cid := map_option (filter (\<lambda>c. c \<noteq> CHR ''-'')) (cid r),
       cntry := clean_cntry (cntry r)\<rparr>"

text \<open>Lines 406 to 430 of \<^verbatim>\<open>load_erp_location_a101\<close>.\<close>

definition clean_erp_location_a101 :: "location_a101 list \<Rightarrow> location_a101 list" where
  "clean_erp_location_a101 location_a101 =
     (let df1 = dropna cid location_a101;
          df2 = drop_duplicates cid df1
      in map clean_location_row df2)"

subsection \<open>Product categories: \<^verbatim>\<open>erp_product_category\<close>\<close>

text \<open>
  The key column is \<^verbatim>\<open>id\<close> (\<open>id_col\<close> here, \<open>id\<close> being HOL's identity); the other
  columns are those the specification lists. Lines 458 and 460 count the duplicated and
  the missing cells and drop the counts: the frame is loaded as it was read.
\<close>

record product_category =
  id_col :: text_cell
  cat :: text_cell
  subcat :: text_cell
  maintenance :: text_cell

definition clean_erp_product_category :: "product_category list \<Rightarrow> product_category list" where
  "clean_erp_product_category product_category = product_category"

section \<open>Storage, console and the orchestrator\<close>

text \<open>
  The six tables, in the bronze schema (read) and in the silver schema (written). A
  silver row is the cleansed row with its \<^verbatim>\<open>load_timestamp\<close> column; a timestamp is
  a day and the nanoseconds into it.
\<close>

datatype table =
  Crm_customer_info | Crm_product_info | Crm_sales_details
  | Erp_customer_az12 | Erp_location_a101 | Erp_product_category

type_synonym timestamp = "date \<times> nat"

record 'r loaded =
  row :: 'r
  load_timestamp :: timestamp

record bronze =
  bronze_crm_customer_info :: "text_cell customer_info list"
  bronze_crm_product_info :: "text_cell product_info list"
  bronze_crm_sales_details :: "text_cell sales_details list"
  bronze_erp_customer_az12 :: "text_cell customer_az12 list"
  bronze_erp_location_a101 :: "location_a101 list"
  bronze_erp_product_category :: "product_category list"

record silver =
  silver_crm_customer_info :: "date_cell customer_info loaded list"
  silver_crm_product_info :: "product_info_silver loaded list"
  silver_crm_sales_details :: "date_cell sales_details loaded list"
  silver_erp_customer_az12 :: "date_cell customer_az12 loaded list"
  silver_erp_location_a101 :: "location_a101 loaded list"
  silver_erp_product_category :: "product_category loaded list"

text \<open>What the loader prints, one constructor per message.\<close>

datatype console_line =
  Starting | Loading table | Loaded table | Failed_loading py_exception
  | Completed | Silver_load_failed

record world =
  bronze_zone :: bronze
  silver_zone :: silver
  console :: "console_line list"

text \<open>
  What the code cannot decide is a parameter of the run: the two date parsers of pandas
  (the general one and the one for \<^verbatim>\<open>%Y%m%d\<close>), the arithmetic of the numeric sales
  columns (it follows from the column types the raw table is read with), which storage
  calls raise (and what), and the clock. \<^verbatim>\<open>pd.Timestamp.now()\<close> is called once for
  each table's \<^verbatim>\<open>load_timestamp\<close> and once more, at line 350, for today's date.
\<close>

datatype io_op = Read_sql | Truncate | To_sql

datatype now_call = Load_timestamp table | Today

record env =
  to_datetime :: "string \<Rightarrow> date_cell"
  to_datetime_Ymd :: "string \<Rightarrow> date_cell"
  sales_ops :: num_ops
  io_error :: "table \<Rightarrow> io_op \<Rightarrow> py_exception option"
  timestamp_now :: "now_call \<Rightarrow> timestamp"

text \<open>
  A statement runs in a world and ends in a world, normally (\<open>None\<close>) or by raising an
  exception; what it changed before it raised stays changed.
\<close>

type_synonym stmt = "world \<Rightarrow> py_exception option \<times> world"

fun block :: "stmt list \<Rightarrow> stmt" where
  "block [] w = (None, w)"
| "block (s # ss) w = (case s w of (Some x, w') \<Rightarrow> (Some x, w') | (None, w') \<Rightarrow> block ss w')"

definition try_except :: "stmt \<Rightarrow> (py_exception \<Rightarrow> stmt) \<Rightarrow> stmt" where
  "try_except body handler w =
     (case body w of (Some x, w') \<Rightarrow> handler x w' | (None, w') \<Rightarrow> (None, w'))"

definition raise :: "py_exception \<Rightarrow> stmt" where
  "raise x w = (Some x, w)"

definition print_line :: "console_line \<Rightarrow> stmt" where
  "print_line l w = (None, w\<lparr>console := console w @ [l]\<rparr>)"

text \<open>\<^verbatim>\<open>pd.read_sql\<close> of a whole bronze table: it raises, or the rest runs on the frame.\<close>

definition read_sql :: "env \<Rightarrow> table \<Rightarrow> (bronze \<Rightarrow> 'f) \<Rightarrow> ('f \<Rightarrow> stmt) \<Rightarrow> stmt" where
  "read_sql e t sel rest w =
     (case io_error e t Read_sql of
        Some x \<Rightarrow> (Some x, w)
      | None \<Rightarrow> rest (sel (bronze_zone w)) w)"

text \<open>A cleansing step that may raise: it raises, or the rest runs on the cleansed frame.\<close>

definition cleanse :: "py_exception + 'f \<Rightarrow> ('f \<Rightarrow> stmt) \<Rightarrow> stmt" where
  "cleanse cleansed rest w = (case cleansed of Inl x \<Rightarrow> (Some x, w) | Inr df \<Rightarrow> rest df w)"

text \<open>
  A write to the silver schema, \<^verbatim>\<open>TRUNCATE TABLE\<close> in its transaction or
  \<^verbatim>\<open>to_sql\<close>: it raises and leaves the table as it was, or it changes the table.
\<close>

definition write_silver :: "env \<Rightarrow> table \<Rightarrow> io_op \<Rightarrow> (silver \<Rightarrow> silver) \<Rightarrow> stmt" where
  "write_silver e t op change w =
     (case io_error e t op of
        Some x \<Rightarrow> (Some x, w)
      | None \<Rightarrow> (None, w\<lparr>silver_zone := change (silver_zone w)\<rparr>))"

definition stamp :: "timestamp \<Rightarrow> 'r list \<Rightarrow> 'r loaded list" where
  "stamp now df = map (\<lambda>r. \<lparr>row = r, load_timestamp = now\<rparr>) df"

subsection \<open>The six loaders\<close>

text \<open>
  Each \<^verbatim>\<open>load_*\<close> function is one \<^verbatim>\<open>try\<close> block (read, cleanse, stamp, truncate,
  append, print) with the handler \<^verbatim>\<open>except Exception as e: print(...)\<close>. The
  cleansing of the sales lines and of the demographics may raise; it runs inside the
  \<^verbatim>\<open>try\<close> block, before the table is truncated.
\<close>

definition load_crm_customer_info :: "env \<Rightarrow> stmt" where
  "load_crm_customer_info e =
     try_except
       (read_sql e Crm_customer_info bronze_crm_customer_info (\<lambda>customer_info.
          let df = stamp (timestamp_now e (Load_timestamp Crm_customer_info))
                     (clean_crm_customer_info (to_datetime e) customer_info)
          in block
            [write_silver e Crm_customer_info Truncate (silver_crm_customer_info_update (\<lambda>_. [])),
             write_silver e Crm_customer_info To_sql
               (silver_crm_customer_info_update (\<lambda>old. old @ df)),
             print_line (Loaded Crm_customer_info)]))
       (\<lambda>x. print_line (Failed_loading x))"

definition load_crm_product_info :: "env \<Rightarrow> stmt" where
  "load_crm_product_info e =
     try_except
       (read_sql e Crm_product_info bronze_crm_product_info (\<lambda>product_info.
          let df = stamp (timestamp_now e (Load_timestamp Crm_product_info))
                     (clean_crm_product_info (to_datetime e) product_info)
          in block
            [write_silver e Crm_product_info Truncate (silver_crm_product_info_update (\<lambda>_. [])),
             write_silver e Crm_product_info To_sql
               (silver_crm_product_info_update (\<lambda>old. old @ df)),
             print_line (Loaded Crm_product_info)]))
       (\<lambda>x. print_line (Failed_loading x))"

definition load_crm_sales_details :: "env \<Rightarrow> stmt" where
  "load_crm_sales_details e =
     try_except
       (read_sql e Crm_sales_details bronze_crm_sales_details (\<lambda>sales_details.
          cleanse (clean_crm_sales_details (to_datetime_Ymd e) (sales_ops e) sales_details)
            (\<lambda>cleansed.
          let df = stamp (timestamp_now e (Load_timestamp Crm_sales_details)) cleansed
          in block
            [write_silver e Crm_sales_details Truncate (silver_crm_sales_details_update (\<lambda>_. [])),
             write_silver e Crm_sales_details To_sql
               (silver_crm_sales_details_update (\<lambda>old. old @ df)),
             print_line (Loaded Crm_sales_details)])))
       (\<lambda>x. print_line (Failed_loading x))"

text \<open>
  The demographics loader reads the clock for today's date, and writes with
  \<^verbatim>\<open>if_exists='replace'\<close>: the table is replaced by the frame.
\<close>

definition load_erp_customer_az12 :: "env \<Rightarrow> stmt" where
  "load_erp_customer_az12 e =
     try_except
       (read_sql e Erp_customer_az12 bronze_erp_customer_az12 (\<lambda>customer_az12.
          cleanse (clean_erp_customer_az12 (to_datetime e) (fst (timestamp_now e Today))
                     customer_az12)
            (\<lambda>cleansed.
          let df = stamp (timestamp_now e (Load_timestamp Erp_customer_az12)) cleansed
          in block
            [write_silver e Erp_customer_az12 Truncate (silver_erp_customer_az12_update (\<lambda>_. [])),
             write_silver e Erp_customer_az12 To_sql (silver_erp_customer_az12_update (\<lambda>_. df)),
             print_line (Loaded Erp_customer_az12)])))
       (\<lambda>x. print_line (Failed_loading x))"

definition load_erp_location_a101 :: "env \<Rightarrow> stmt" where
  "load_erp_location_a101 e =
     try_except
       (read_sql e Erp_location_a101 bronze_erp_location_a101 (\<lambda>location_a101.
          let df = stamp (timestamp_now e (Load_timestamp Erp_location_a101))
                     (clean_erp_location_a101 location_a101)
          in block
            [write_silver e Erp_location_a101 Truncate (silver_erp_location_a101_update (\<lambda>_. [])),
             write_silver e Erp_location_a101 To_sql
               (silver_erp_location_a101_update (\<lambda>old. old @ df)),
             print_line (Loaded Erp_location_a101)]))
       (\<lambda>x. print_line (Failed_loading x))"

definition load_erp_product_category :: "env \<Rightarrow> stmt" where
  "load_erp_product_category e =
     try_except
       (read_sql e Erp_product_category bronze_erp_product_category (\<lambda>product_category.
          let df = stamp (timestamp_now e (Load_timestamp Erp_product_category))
                     (clean_erp_product_category product_category)
          in block
            [write_silver e Erp_product_category Truncate
               (silver_erp_product_category_update (\<lambda>_. [])),
             write_silver e Erp_product_category To_sql
               (silver_erp_product_category_update (\<lambda>old. old @ df)),
             print_line (Loaded Erp_product_category)]))
       (\<lambda>x. print_line (Failed_loading x))"

subsection \<open>\<^verbatim>\<open>main\<close>\<close>

text \<open>
  Lines 484 to 514: the six loaders in order, in a \<^verbatim>\<open>try\<close> block whose handler
  prints and raises again.
\<close>

definition main :: "env \<Rightarrow> stmt" where
  "main e =
     try_except
       (block
          [print_line Starting,
           print_line (Loading Crm_customer_info), load_crm_customer_info e,
           print_line (Loading Crm_product_info), load_crm_product_info e,
           print_line (Loading Crm_sales_details), load_crm_sales_details e,
           print_line (Loading Erp_customer_az12), load_erp_customer_az12 e,
           print_line (Loading Erp_location_a101), load_erp_location_a101 e,
           print_line (Loading Erp_product_category), load_erp_product_category e,
           print_line Completed])
       (\<lambda>x. block [print_line Silver_load_failed, raise x])"

section \<open>Notions the statements use\<close>

text \<open>
  \<open>no_later a b\<close>: the date cell \<open>a\<close> is not more recent than \<open>b\<close>, a missing date
  being older than every date (pandas sorts \<open>NaT\<close> last in the descending column).
\<close>

definition no_later :: "date_cell \<Rightarrow> date_cell \<Rightarrow> bool" where
  "no_later a b =
     (case a of None \<Rightarrow> True | Some x \<Rightarrow> (case b of None \<Rightarrow> False | Some y \<Rightarrow> x \<le> y))"

text \<open>
  A date parser for the examples: the ISO texts \<^verbatim>\<open>YYYY-MM-DD\<close>, which pandas' general
  parser reads as that day, and nothing else.
\<close>

definition iso_date :: "string \<Rightarrow> date_cell" where
  "iso_date s =
     (if length s = 10 \<and> s ! 4 = CHR ''-'' \<and> s ! 7 = CHR ''-''
      then strptime_Ymd (take 4 s @ take 2 (drop 5 s) @ drop 8 s) else None)"

text \<open>
  The exception the cleansing of a table's frame raises, if any: the cleansing of the
  sales lines and of the demographics can raise, the other four cannot.
\<close>

definition error_of :: "py_exception + 'f \<Rightarrow> py_exception option" where
  "error_of cleansed = (case cleansed of Inl x \<Rightarrow> Some x | Inr df \<Rightarrow> None)"

definition frame_of :: "py_exception + 'r list \<Rightarrow> 'r list" where
  "frame_of cleansed = (case cleansed of Inl x \<Rightarrow> [] | Inr df \<Rightarrow> df)"

definition cleansing_error :: "env \<Rightarrow> bronze \<Rightarrow> table \<Rightarrow> py_exception option" where
  "cleansing_error e b t =
     (case t of
        Crm_sales_details \<Rightarrow>
          error_of (clean_crm_sales_details (to_datetime_Ymd e) (sales_ops e)
                      (bronze_crm_sales_details b))
      | Erp_customer_az12 \<Rightarrow>
          error_of (clean_erp_customer_az12 (to_datetime e) (fst (timestamp_now e Today))
                      (bronze_erp_customer_az12 b))
      | _ \<Rightarrow> None)"

text \<open>
  The first step of a table's loader that raises (the read, the cleansing, the truncate,
  the write), and the line the loader ends with.
\<close>

definition first_error :: "env \<Rightarrow> bronze \<Rightarrow> table \<Rightarrow> py_exception option" where
  "first_error e b t =
     (case io_error e t Read_sql of
        Some x \<Rightarrow> Some x
      | None \<Rightarrow>
         (case cleansing_error e b t of
            Some x \<Rightarrow> Some x
          | None \<Rightarrow>
             (case io_error e t Truncate of Some x \<Rightarrow> Some x | None \<Rightarrow> io_error e t To_sql)))"

definition outcome :: "env \<Rightarrow> bronze \<Rightarrow> table \<Rightarrow> console_line" where
  "outcome e b t = (case first_error e b t of None \<Rightarrow> Loaded t | Some x \<Rightarrow> Failed_loading x)"

text \<open>
  \<open>prints b s ls\<close>: in every world whose raw zone is \<open>b\<close> the statement \<open>s\<close>
  returns without raising, has added exactly the lines \<open>ls\<close> to the console and has
  left the raw zone as it was.
\<close>

definition prints :: "bronze \<Rightarrow> stmt \<Rightarrow> console_line list \<Rightarrow> bool" where
  "prints b s ls \<longleftrightarrow>
     (\<forall>w. bronze_zone w = b \<longrightarrow>
        fst (s w) = None \<and> console (snd (s w)) = console w @ ls \<and> bronze_zone (snd (s w)) = b)"

text \<open>
  What a silver table holds after its loader ran: the old rows when the read, the
  cleansing or the truncate raised, nothing when the write raised after the truncate,
  the new frame otherwise.
\<close>

definition table_after :: "env \<Rightarrow> bronze \<Rightarrow> table \<Rightarrow> 'r list \<Rightarrow> 'r list \<Rightarrow> 'r list" where
  "table_after e b t old new =
     (case io_error e t Read_sql of
        Some x \<Rightarrow> old
      | None \<Rightarrow>
         (case cleansing_error e b t of
            Some x \<Rightarrow> old
          | None \<Rightarrow>
             (case io_error e t Truncate of
                Some x \<Rightarrow> old
              | None \<Rightarrow> (case io_error e t To_sql of Some x \<Rightarrow> [] | None \<Rightarrow> new))))"

text \<open>The cleansed zone without its \<^verbatim>\<open>load_timestamp\<close> columns.\<close>

definition without_load_timestamp ::
  "silver \<Rightarrow>
     date_cell customer_info list \<times> product_info_silver list \<times> date_cell sales_details list
     \<times> date_cell customer_az12 list \<times> location_a101 list \<times> product_category list" where
  "without_load_timestamp s =
     (map row (silver_crm_customer_info s), map row (silver_crm_product_info s),
      map row (silver_crm_sales_details s), map row (silver_erp_customer_az12 s),
      map row (silver_erp_location_a101 s), map row (silver_erp_product_category s))"

section \<open>Example frames\<close>

text \<open>Two Customer records with one key, created 2024-01-01 and 2024-06-01.\<close>

definition customer_jan :: "text_cell customer_info" where
  "customer_jan =
     \<lparr>cust_id = Some 11, cst_firstname = Some '' Ann'', cst_lastname = Some ''Lee'',
      cst_marital_status = Some ''m'', cst_gndr = Some ''f'',
      cst_create_date = Some ''2024-01-01''\<rparr>"

definition customer_jun :: "text_cell customer_info" where
  "customer_jun =
     \<lparr>cust_id = Some 11, cst_firstname = Some ''Ann'', cst_lastname = Some ''Lee-Roy'',
      cst_marital_status = Some ''s'', cst_gndr = None,
      cst_create_date = Some ''2024-06-01''\<rparr>"

text \<open>The Product lineage \<^verbatim>\<open>AA-BB\<close> with the start dates 2022-01-01 and 2021-01-01.\<close>

definition product_2022 :: "text_cell product_info" where
  "product_2022 =
     \<lparr>prd_key = Some ''AA-BB'', prd_cost = Some 12, prd_line = Some ''R '',
      prd_start_dt = Some ''2022-01-01'', prd_end_dt = None\<rparr>"

definition product_2021 :: "text_cell product_info" where
  "product_2021 =
     \<lparr>prd_key = Some ''AA-BB'', prd_cost = None, prd_line = Some ''R '',
      prd_start_dt = Some ''2021-01-01'', prd_end_dt = Some ''2021-06-30''\<rparr>"

text \<open>Rows whose business key is missing, and a Product row that occurs twice.\<close>

definition customer_nokey :: "text_cell customer_info" where
  "customer_nokey =
     \<lparr>cust_id = None, cst_firstname = Some ''Zed'', cst_lastname = None,
      cst_marital_status = None, cst_gndr = Some ''M'',
      cst_create_date = Some ''2024-03-01''\<rparr>"

definition product_nokey :: "text_cell product_info" where
  "product_nokey =
     \<lparr>prd_key = None, prd_cost = Some 5, prd_line = None,
      prd_start_dt = Some ''2021-01-01'', prd_end_dt = None\<rparr>"

definition product_bike :: "text_cell product_info" where
  "product_bike =
     \<lparr>prd_key = Some ''AB-CD-1234'', prd_cost = Some 5, prd_line = Some ''M'',
      prd_start_dt = Some ''2021-01-01'', prd_end_dt = None\<rparr>"

text \<open>A Product row whose start date is no date, and two sales lines, one with no order number.\<close>

definition product_undated :: "text_cell product_info" where
  "product_undated =
     \<lparr>prd_key = Some ''AB-CD-1234'', prd_cost = Some 5, prd_line = Some ''M'',
      prd_start_dt = Some ''soon'', prd_end_dt = None\<rparr>"

definition sales_noorder :: "text_cell sales_details" where
  "sales_noorder =
     \<lparr>sls_ord_num = None,
      sls_order_dt = Some ''20230101'', sls_ship_dt = Some ''20230108'',
      sls_due_dt = Some ''20230113'',
      sls_sales = Some 20, sls_quantity = Some 2, sls_price = Some 10\<rparr>"

definition sales_line :: "text_cell sales_details" where
  "sales_line =
     \<lparr>sls_ord_num = Some ''SO43697'',
      sls_order_dt = Some ''20230101'', sls_ship_dt = Some ''20230108.0'',
      sls_due_dt = Some ''0'',
      sls_sales = Some 15, sls_quantity = Some 2, sls_price = Some 10\<rparr>"

definition category_nokey :: product_category where
  "category_nokey =
     \<lparr>id_col = None, cat = Some ''Bikes'', subcat = Some ''Road Bikes'', maintenance = Some ''Yes''\<rparr>"

definition az12_frame :: "text_cell customer_az12 list" where
  "az12_frame =
     [\<lparr>cid = None, bdate = Some ''1990-01-01'', gen = Some ''M''\<rparr>,
      \<lparr>cid = Some ''NASAW00011000'', bdate = Some ''1971-10-06'', gen = Some ''Male''\<rparr>]"

text \<open>
  Demographic records with the raw keys \<^verbatim>\<open>NAS123\<close>, \<^verbatim>\<open>123\<close> and \<^verbatim>\<open>NAS123\<close>
  again.
\<close>

definition az12_nas :: "text_cell customer_az12 list" where
  "az12_nas =
     [\<lparr>cid = Some ''NAS123'', bdate = Some ''1980-05-17'', gen = Some ''F''\<rparr>,
      \<lparr>cid = Some ''123'', bdate = Some ''1980-05-17'', gen = Some ''m''\<rparr>,
      \<lparr>cid = Some ''NAS123'', bdate = Some ''1975-01-01'', gen = Some ''F''\<rparr>]"

definition location_frame :: "location_a101 list" where
  "location_frame =
     [\<lparr>cid = Some ''AW-00011000'', cntry = Some ''us''\<rparr>,
      \<lparr>cid = None, cntry = Some ''DE''\<rparr>]"

text \<open>
  A raw zone with a few rows in every table, and an empty cleansed zone. The demographic
  record with the key \<^verbatim>\<open>AW00011001\<close> has the birth date 2024-06-01.
\<close>

definition raw_world :: world where
  "raw_world =
     \<lparr>bronze_zone =
        \<lparr>bronze_crm_customer_info = [customer_nokey, customer_jan, customer_jun],
         bronze_crm_product_info = [product_2022, product_2021],
         bronze_crm_sales_details =
[sales_line],
         bronze_erp_customer_az12 =
           az12_frame @ [\<lparr>cid = Some ''AW00011001'', bdate = Some ''2024-06-01'', gen = Some ''F''\<rparr>],
         bronze_erp_location_a101 = location_frame,
         bronze_erp_product_category = [category_nokey]\<rparr>,
      silver_zone =
        \<lparr>silver_crm_customer_info = [], silver_crm_product_info = [],
         silver_crm_sales_details = [], silver_erp_customer_az12 = [],
         silver_erp_location_a101 = [], silver_erp_product_category = []\<rparr>,
      console = []\<rparr>"

text \<open>
  The same raw zone, but for the demographics: one record, whose birth date is no date.
  The cleansed demographics table holds a row of an earlier run.
\<close>

definition unparsed_world :: world where
  "unparsed_world =
     raw_world
       \<lparr>bronze_zone := (bronze_zone raw_world)
          \<lparr>bronze_erp_customer_az12 :=
             [\<lparr>cid = Some ''AW00011002'', bdate = Some ''n/a'', gen = Some ''M''\<rparr>]\<rparr>,
        silver_zone := (silver_zone raw_world)
          \<lparr>silver_erp_customer_az12 :=
             [\<lparr>row = \<lparr>cid = Some ''AW00011000'', bdate = Some (ymd 1971 10 6),
                      gen = Some ''Male''\<rparr>,
               load_timestamp = (ymd 2024 6 30, 0)\<rparr>]\<rparr>\<rparr>"

text \<open>A run on the day \<open>d\<close> in which no storage call raises.\<close>

definition quiet_env :: "date \<Rightarrow> env" where
  "quiet_env d =
     \<lparr>to_datetime = iso_date, to_datetime_Ymd = strptime_Ymd, sales_ops = float64_ops,
      io_error = (\<lambda>t op. None), timestamp_now = (\<lambda>c. (d, 0))\<rparr>"

text \<open>
  A run in which the truncate of the Customer table and the read of the Product Category
  table raise.
\<close>

definition flaky_env :: env where
  "flaky_env =
     \<lparr>to_datetime = iso_date, to_datetime_Ymd = strptime_Ymd, sales_ops = float64_ops,
      io_error = (\<lambda>t op.
        if t = Crm_customer_info \<and> op = Truncate then Some (Exception ''truncate failed'')
        else if t = Erp_product_category \<and> op = Read_sql then Some (Exception ''connection lost'')
        else None),
      timestamp_now = (\<lambda>c. (ymd 2024 7 1, 0))\<rparr>"

section \<open>Theorems\<close>

subsection \<open>Calendar facts\<close>

lemma ymd_2023_01_01: "ymd 2023 1 1 = 738521"
  by (simp add: ymd_def days_before_year_def days_before_month_def)

subsection \<open>The strict parse\<close>





subsection \<open>C6: the fixed-width date parser\<close>




subsection \<open>Machine numbers\<close>









subsection \<open>The sales reconciler\<close>






text \<open>
  The rounding and the wrap-around are there: the float64 quotient of 1 by 49 is not
  a 49th, and the int64 square of 3037000500 is negative.
\<close>

lemma machine_number_examples:
  "float64 (1 / 49) = 5882252574524729 / 288230376151711744"
  "float64 (49 * (2941126287262365 / 144115188075855872)) = 1"
  "int64 (3037000500 * 3037000500) = - 9223372036709301616"
  by code_simp+

subsection \<open>C1: the sales invariant\<close>




subsection \<open>C4: a missing unit price\<close>

text \<open>
  Claim C4 says that quantity 2, unit_price missing and sales_amount 20 reconcile to
  unit_price 10. The amount is reconciled first, against the candidate
  \<open>2 \<times> |0| = 0\<close> (the missing price counted as 0): 20 differs from 0 and is replaced
  by 0, and the price recomputed from it is \<open>0 / 2\<close>.
\<close>

theorem reconcile_missing_price_counterexample:
  "sls_price (reconcile_sales float64_ops
       \<lparr>sls_ord_num = Some ''SO1'', sls_order_dt = Some ''20230101'',
        sls_ship_dt = Some ''20230102'', sls_due_dt = Some ''20230103'',
        sls_sales = Some 20, sls_quantity = Some 2, sls_price = None\<rparr>) \<noteq> Some 10"
  by code_simp

text \<open>
  Claim C4 as amended. For a Sales Line input row with quantity = 2, unit_price missing
  and sales_amount = 20, the reconciled output row has sales_amount = 0 and
  unit_price = 0: the price is recomputed as the already reconciled sales_amount (0)
  divided by the quantity. This is so in float64 and in int64 arithmetic.
\<close>

theorem reconcile_missing_price:
  "reconcile_sales float64_ops
       \<lparr>sls_ord_num = Some ''SO1'', sls_order_dt = Some ''20230101'',
        sls_ship_dt = Some ''20230102'', sls_due_dt = Some ''20230103'',
        sls_sales = Some 20, sls_quantity = Some 2, sls_price = None\<rparr>
   = \<lparr>sls_ord_num = Some ''SO1'', sls_order_dt = Some ''20230101'',
        sls_ship_dt = Some ''20230102'', sls_due_dt = Some ''20230103'',
        sls_sales = Some 0, sls_quantity = Some 2, sls_price = Some 0\<rparr>
   \<and> reconcile_sales int64_ops
       \<lparr>sls_ord_num = Some ''SO1'', sls_order_dt = Some ''20230101'',
        sls_ship_dt = Some ''20230102'', sls_due_dt = Some ''20230103'',
        sls_sales = Some 20, sls_quantity = Some 2, sls_price = None\<rparr>
   = \<lparr>sls_ord_num = Some ''SO1'', sls_order_dt = Some ''20230101'',
        sls_ship_dt = Some ''20230102'', sls_due_dt = Some ''20230103'',
        sls_sales = Some 0, sls_quantity = Some 2, sls_price = Some 0\<rparr>
   \<and> cell_div float64_ops (Some 0) (replace_zero_nan (Some 2)) = Some 0
   \<and> cell_div int64_ops (Some 0) (replace_zero_nan (Some 2)) = Some 0"
  by code_simp

subsection \<open>The value normaliser\<close>














subsection \<open>C3: unmapped categorical values\<close>




subsection \<open>Deduplication and sorted frames\<close>

lemma find_filter_implied:
  "(\<And>x. P x \<Longrightarrow> Q x) \<Longrightarrow> find P (filter Q xs) = find P xs"
  by (induction xs) auto

lemma find_filter_excluded:
  "(\<And>x. P x \<Longrightarrow> \<not> Q x) \<Longrightarrow> find P (filter Q xs) = None"
  by (induction xs) auto

lemma find_Some_mem: "find P ys = Some r \<Longrightarrow> r \<in> set ys \<and> P r"
  by (induction ys) (auto split: if_splits)

lemma find_None_none: "find P ys = None \<Longrightarrow> s \<in> set ys \<Longrightarrow> \<not> P s"
  by (induction ys) (auto split: if_splits)

lemma set_drop_duplicates: "set (drop_duplicates col xs) \<subseteq> set xs"
  by (induction col xs rule: drop_duplicates.induct) auto

text \<open>Of the rows with a given key, \<open>drop_duplicates\<close> keeps exactly the first.\<close>

lemma filter_drop_duplicates:
  "filter (\<lambda>s. col s = k) (drop_duplicates col xs)
     = (case find (\<lambda>s. col s = k) xs of None \<Rightarrow> [] | Some r \<Rightarrow> [r])"
proof (induction col xs rule: drop_duplicates.induct)
  case (1 col)
  then show ?case by simp
next
  case (2 col r rs)
  show ?case
  proof (cases "col r = k")
    case True
    have "find (\<lambda>s. col s = k) (filter (\<lambda>s. col s \<noteq> col r) rs) = None"
      using True by (intro find_filter_excluded) simp
    with 2 True show ?thesis by simp
  next
    case False
    have "find (\<lambda>s. col s = k) (filter (\<lambda>s. col s \<noteq> col r) rs) = find (\<lambda>s. col s = k) rs"
      using False by (intro find_filter_implied) auto
    with 2 False show ?thesis by simp
  qed
qed

lemma distinct_drop_duplicates: "distinct (map col (drop_duplicates col xs))"
proof (induction col xs rule: drop_duplicates.induct)
  case (1 col)
  then show ?case by simp
next
  case (2 col r rs)
  have "col r \<notin> col ` set (drop_duplicates col (filter (\<lambda>s. col s \<noteq> col r) rs))"
    using set_drop_duplicates [of col "filter (\<lambda>s. col s \<noteq> col r) rs"] by auto
  with 2 show ?case by simp
qed

text \<open>In a sorted frame the first row with a property has the least sort key among them.\<close>

lemma sorted_find_least:
  "sorted (map f ys) \<Longrightarrow> find P ys = Some r \<Longrightarrow> s \<in> set ys \<Longrightarrow> P s \<Longrightarrow> f r \<le> f s"
  by (induction ys) (auto split: if_splits)

lemma desc_key_le: "desc_key a \<le> desc_key b \<longleftrightarrow> no_later b a"
  by (cases a; cases b) (auto simp: desc_key_def no_later_def)

lemma dropna_keeps: "r \<in> set df \<Longrightarrow> col r = Some k \<Longrightarrow> r \<in> set (dropna col df)"
  by (simp add: dropna_def isna_def)

lemma dropna_not_missing: "r \<in> set (dropna col df) \<Longrightarrow> col r \<noteq> None \<and> r \<in> set df"
  by (simp add: dropna_def isna_def)

subsection \<open>C7: Customer deduplication keeps the most recent record\<close>

lemma clean_customer_text_key [simp]:
  "cust_id (clean_customer_text r) = cust_id r"
  "cst_create_date (clean_customer_text r) = cst_create_date r"
  by (simp_all add: clean_customer_text_def)

lemma convert_create_date_key [simp]:
  "cust_id (convert_create_date parse r) = cust_id r"
  "cst_create_date (convert_create_date parse r) = to_datetime_date parse (cst_create_date r)"
  by (simp_all add: convert_create_date_def)

lemma customer_survivor:
  assumes "r \<in> set df" and "cust_id r = Some k"
  shows "\<exists>r' \<in> set df. cust_id r' = Some k
     \<and> filter (\<lambda>s. cust_id s = Some k) (clean_crm_customer_info parse df)
         = [clean_customer_text (convert_create_date parse r')]
     \<and> no_later (to_datetime_date parse (cst_create_date r))
         (to_datetime_date parse (cst_create_date r'))"
proof -
  define K where
    "K = (\<lambda>r :: date_cell customer_info. (asc_key (cust_id r), desc_key (cst_create_date r)))"
  define ys where "ys = sort_key K (map (convert_create_date parse) (dropna cust_id df))"
  have out: "clean_crm_customer_info parse df
      = map clean_customer_text (drop_duplicates cust_id ys)"
    by (simp add: clean_crm_customer_info_def ys_def K_def Let_def)
  have mem: "convert_create_date parse r \<in> set ys"
    using assms by (simp add: ys_def dropna_keeps)
  obtain t where t: "find (\<lambda>s. cust_id s = Some k) ys = Some t"
    using find_None_none [of "\<lambda>s. cust_id s = Some k" ys "convert_create_date parse r"]
      mem assms(2)
    by (cases "find (\<lambda>s. cust_id s = Some k) ys") auto
  from find_Some_mem [OF t] have tin: "t \<in> set ys" and tk: "cust_id t = Some k" by auto
  from tin obtain r' where r': "r' \<in> set (dropna cust_id df)" "t = convert_create_date parse r'"
    by (auto simp: ys_def)
  have "sorted (map K ys)" by (simp add: ys_def)
  from sorted_find_least [OF this t mem] assms(2)
  have "K t \<le> K (convert_create_date parse r)" by simp
  with tk assms(2)
  have le: "desc_key (cst_create_date t)
      \<le> desc_key (cst_create_date (convert_create_date parse r))"
    by (simp add: K_def)
  have f: "filter (\<lambda>s. cust_id s = Some k) (clean_crm_customer_info parse df)
      = [clean_customer_text t]"
    by (simp add: out filter_map comp_def filter_drop_duplicates t)
  from r' tk dropna_not_missing [OF r'(1)] le f show ?thesis
    by (auto simp: desc_key_le intro!: bexI [of _ r'])
qed

lemma customer_example:
  "clean_crm_customer_info iso_date [customer_jan, customer_jun]
     = [\<lparr>cust_id = Some 11, cst_firstname = Some ''Ann'', cst_lastname = Some ''Lee-Roy'',
         cst_marital_status = Some ''Single'', cst_gndr = Some ''Unknown'',
         cst_create_date = Some (ymd 2024 6 1)\<rparr>]"
  "clean_crm_customer_info iso_date [customer_jun, customer_jan]
     = [\<lparr>cust_id = Some 11, cst_firstname = Some ''Ann'', cst_lastname = Some ''Lee-Roy'',
         cst_marital_status = Some ''Single'', cst_gndr = Some ''Unknown'',
         cst_create_date = Some (ymd 2024 6 1)\<rparr>]"
  by code_simp+

text \<open>
  Claim C7. For Customer deduplication, among all input records sharing the same business
  key (\<^verbatim>\<open>cust_id\<close>), the unique surviving record is the one with the largest tie-break
  value (the most recent create_date): the output holds exactly one record with that key,
  it is the cleansed form of an input record \<open>r'\<close> with that key, and no input record
  with the key has a more recent create_date than \<open>r'\<close> (an unparsable or missing
  date counts as oldest). Given two records with the same key and create_dates
  2024-01-01 and 2024-06-01, in either order, the survivor has create_date 2024-06-01.
\<close>

theorem customer_dedup_keeps_latest:
  "(r \<in> set df \<and> cust_id r = Some k \<longrightarrow>
      (\<exists>r' \<in> set df. cust_id r' = Some k
         \<and> filter (\<lambda>s. cust_id s = Some k) (clean_crm_customer_info parse df)
             = [clean_customer_text (convert_create_date parse r')]
         \<and> no_later (to_datetime_date parse (cst_create_date r))
             (to_datetime_date parse (cst_create_date r'))))
   \<and> map cst_create_date (clean_crm_customer_info iso_date [customer_jan, customer_jun])
       = [Some (ymd 2024 6 1)]
   \<and> map cst_create_date (clean_crm_customer_info iso_date [customer_jun, customer_jan])
       = [Some (ymd 2024 6 1)]"
  using customer_survivor [of r df k parse] by (simp add: customer_example)

theorem customer_dedup_keeps_latest_witness:
  "customer_jan \<in> set [customer_jan, customer_jun]
   \<and> cust_id customer_jan = Some 11
   \<and> (\<exists>r' \<in> set [customer_jan, customer_jun]. cust_id r' = Some 11
         \<and> filter (\<lambda>s. cust_id s = Some 11)
             (clean_crm_customer_info iso_date [customer_jan, customer_jun])
             = [clean_customer_text (convert_create_date iso_date r')]
         \<and> no_later (to_datetime_date iso_date (cst_create_date customer_jan))
             (to_datetime_date iso_date (cst_create_date r')))"
proof -
  have h1: "customer_jan \<in> set [customer_jan, customer_jun]" by simp
  have h2: "cust_id customer_jan = Some 11" by (simp add: customer_jan_def)
  from h1 h2 customer_dedup_keeps_latest [of customer_jan "[customer_jan, customer_jun]" 11 iso_date]
  show ?thesis by blast
qed

subsection \<open>The SCD window\<close>

lemma find_as_filter: "find P xs = (case filter P xs of [] \<Rightarrow> None | x # _ \<Rightarrow> Some x)"
  by (induction xs) auto

lemma length_groupby_shift_next [simp]: "length (groupby_shift_next key col S) = length S"
  by (induction S) auto

lemma derive_end_dt_Nil [simp]: "derive_end_dt [] = []"
  by (simp add: derive_end_dt_def)

lemma derive_end_dt_Cons:
  "derive_end_dt (r # rs) =
    r\<lparr>prd_end_dt := map_option (\<lambda>d. d - 1)
        (if isna (prd_key r) then None
         else (case find (\<lambda>s. prd_key s = prd_key r) rs of None \<Rightarrow> None | Some s \<Rightarrow> prd_start_dt s))\<rparr>
    # derive_end_dt rs"
  by (simp add: derive_end_dt_def)

lemma derive_end_dt_group:
  "map prd_end_dt (filter (\<lambda>r. prd_key r = Some k) (derive_end_dt S))
   = (case filter (\<lambda>r. prd_key r = Some k) S of [] \<Rightarrow> []
      | _ # rest \<Rightarrow> map (\<lambda>s. map_option (\<lambda>d. d - 1) (prd_start_dt s)) rest @ [None])"
proof (induction S)
  case Nil
  then show ?case by simp
next
  case (Cons r rs)
  show ?case
  proof (cases "prd_key r = Some k")
    case True
    then show ?thesis
      using Cons
      by (simp add: derive_end_dt_Cons isna_def find_as_filter split: list.splits)
  next
    case False
    then show ?thesis using Cons by (simp add: derive_end_dt_Cons)
  qed
qed

lemma derive_end_dt_frame:
  "map (\<lambda>r. (prd_key r, prd_cost r, prd_line r, prd_start_dt r))
       (filter (\<lambda>r. prd_key r = Some k) (derive_end_dt S))
   = map (\<lambda>r. (prd_key r, prd_cost r, prd_line r, prd_start_dt r))
       (filter (\<lambda>r. prd_key r = Some k) S)"
  by (induction S) (auto simp: derive_end_dt_Cons)

lemma sorted_same_key:
  assumes "sorted (map (\<lambda>r. (asc_key (prd_key r), asc_key (prd_start_dt r))) xs)"
    and "\<forall>x \<in> set xs. prd_key x = Some k"
  shows "sorted (map (\<lambda>r. asc_key (prd_start_dt r)) xs)"
  using assms by (induction xs) auto

lemma scd_window_lineage:
  fixes df :: "date_cell product_info list"
  assumes L: "L = filter (\<lambda>r. prd_key r = Some k) (scd_window df)" and ne: "L \<noteq> []"
  shows "map prd_end_dt L = map (\<lambda>s. map_option (\<lambda>d. d - 1) (prd_start_dt s)) (tl L) @ [None]"
    and "sorted (map (\<lambda>r. asc_key (prd_start_dt r)) L)"
    and "mset (map (\<lambda>r. (prd_key r, prd_cost r, prd_line r, prd_start_dt r)) L)
         = mset (map (\<lambda>r. (prd_key r, prd_cost r, prd_line r, prd_start_dt r))
             (filter (\<lambda>r. prd_key r = Some k) df))"
proof -
  define K where "K = (\<lambda>r :: date_cell product_info. (asc_key (prd_key r), asc_key (prd_start_dt r)))"
  define S where "S = sort_key K df"
  define G where "G = filter (\<lambda>r. prd_key r = Some k) S"
  have W: "scd_window df = derive_end_dt S" by (simp add: scd_window_def S_def K_def)
  have fr: "map (\<lambda>r. (prd_key r, prd_cost r, prd_line r, prd_start_dt r)) L
      = map (\<lambda>r. (prd_key r, prd_cost r, prd_line r, prd_start_dt r)) G"
    unfolding L W G_def by (rule derive_end_dt_frame)
  from fr have "length (map (\<lambda>r. (prd_key r, prd_cost r, prd_line r, prd_start_dt r)) L)
      = length (map (\<lambda>r. (prd_key r, prd_cost r, prd_line r, prd_start_dt r)) G)"
    by (rule arg_cong)
  then have len: "length L = length G" by simp
  with ne obtain g rest where G: "G = g # rest" by (cases G) auto
  from fr have "map (\<lambda>t. snd (snd (snd t)))
        (map (\<lambda>r. (prd_key r, prd_cost r, prd_line r, prd_start_dt r)) L)
      = map (\<lambda>t. snd (snd (snd t)))
        (map (\<lambda>r. (prd_key r, prd_cost r, prd_line r, prd_start_dt r)) G)"
    by (rule arg_cong)
  then have st: "map prd_start_dt L = map prd_start_dt G"
    by (simp add: comp_def)
  have "map (\<lambda>s. map_option (\<lambda>d. d - 1) (prd_start_dt s)) (tl L)
      = map (map_option (\<lambda>d. d - 1)) (tl (map prd_start_dt L))"
    by (simp add: map_tl comp_def)
  also have "\<dots> = map (\<lambda>s. map_option (\<lambda>d. d - 1) (prd_start_dt s)) rest"
    by (simp add: st G)
  finally have tlL: "map (\<lambda>s. map_option (\<lambda>d. d - 1) (prd_start_dt s)) (tl L)
      = map (\<lambda>s. map_option (\<lambda>d. d - 1) (prd_start_dt s)) rest" .
  have "map prd_end_dt L = map (\<lambda>s. map_option (\<lambda>d. d - 1) (prd_start_dt s)) rest @ [None]"
    unfolding L W using derive_end_dt_group [of k S] G by (simp add: G_def)
  with tlL show "map prd_end_dt L = map (\<lambda>s. map_option (\<lambda>d. d - 1) (prd_start_dt s)) (tl L) @ [None]"
    by simp
  have "sorted (map K S)" by (simp add: S_def)
  then have "sorted (map K G)" unfolding G_def by (rule sorted_filter)
  then have "sorted (map (\<lambda>r. asc_key (prd_start_dt r)) G)"
    unfolding K_def by (rule sorted_same_key [where k = k]) (simp add: G_def)
  moreover have "map asc_key (map prd_start_dt L) = map asc_key (map prd_start_dt G)"
    using st by (rule arg_cong)
  then have "map (\<lambda>r. asc_key (prd_start_dt r)) L = map (\<lambda>r. asc_key (prd_start_dt r)) G"
    by (simp add: comp_def)
  ultimately show "sorted (map (\<lambda>r. asc_key (prd_start_dt r)) L)" by simp
  have "mset G = filter_mset (\<lambda>r. prd_key r = Some k) (mset df)"
    by (simp add: G_def S_def)
  then have "mset G = mset (filter (\<lambda>r. prd_key r = Some k) df)" by simp
  then have "mset (map (\<lambda>r. (prd_key r, prd_cost r, prd_line r, prd_start_dt r)) G)
      = mset (map (\<lambda>r. (prd_key r, prd_cost r, prd_line r, prd_start_dt r)) (filter (\<lambda>r. prd_key r = Some k) df))"
    by simp
  with fr show "mset (map (\<lambda>r. (prd_key r, prd_cost r, prd_line r, prd_start_dt r)) L)
         = mset (map (\<lambda>r. (prd_key r, prd_cost r, prd_line r, prd_start_dt r))
             (filter (\<lambda>r. prd_key r = Some k) df))" by simp
qed

lemma product_example:
  "map (\<lambda>r. (prd_start_dt r, prd_end_dt r))
     (clean_crm_product_info iso_date [product_2022, product_2021])
   = [(Some (ymd 2021 1 1), Some (ymd 2021 12 31)), (Some (ymd 2022 1 1), None)]"
  by code_simp

lemma split_product_key_dates [simp]:
  "prd_start_dt (split_product_key r) = prd_start_dt r"
  "prd_end_dt (split_product_key r) = prd_end_dt r"
  by (simp_all add: split_product_key_def)

subsection \<open>C5: end dates of a product lineage\<close>

text \<open>
  Claim C5. For the Product record set, take the records that share a product key
  lineage (the raw \<^verbatim>\<open>prd_key\<close>, the column the code groups by) after SCD window
  derivation, in frame order: they are the lineage's input records ordered by start_date
  ascending (missing start dates last), each record's end_date is the start_date of its
  immediate successor minus one day, and the last, most recent record has a missing
  end_date. The loaded frame has these start and end dates. A lineage \<^verbatim>\<open>AA-BB\<close>
  with the start dates 2021-01-01 and 2022-01-01 gets the end dates 2021-12-31 and
  missing.
\<close>

theorem scd_window_end_dates:
  "(L = filter (\<lambda>r. prd_key r = Some k) (scd_window df) \<and> L \<noteq> [] \<longrightarrow>
      map prd_end_dt L
        = map (\<lambda>s. map_option (\<lambda>d. d - 1) (prd_start_dt s)) (tl L) @ [None]
      \<and> sorted (map (\<lambda>r. asc_key (prd_start_dt r)) L)
      \<and> mset (map (\<lambda>r. (prd_key r, prd_cost r, prd_line r, prd_start_dt r)) L)
          = mset (map (\<lambda>r. (prd_key r, prd_cost r, prd_line r, prd_start_dt r))
              (filter (\<lambda>r. prd_key r = Some k) df)))
   \<and> map (\<lambda>r. (prd_start_dt r, prd_end_dt r)) (clean_crm_product_info parse raw)
       = map (\<lambda>r. (prd_start_dt r, prd_end_dt r))
           (scd_window (map (convert_product_dates parse) (dropna prd_key raw)))
   \<and> map (\<lambda>r. (prd_start_dt r, prd_end_dt r))
         (clean_crm_product_info iso_date [product_2022, product_2021])
       = [(Some (ymd 2021 1 1), Some (ymd 2021 12 31)), (Some (ymd 2022 1 1), None)]"
proof -
  have "map (\<lambda>r. (prd_start_dt r, prd_end_dt r)) (clean_crm_product_info parse raw)
       = map (\<lambda>r. (prd_start_dt r, prd_end_dt r))
           (scd_window (map (convert_product_dates parse) (dropna prd_key raw)))"
    by (simp add: clean_crm_product_info_def Let_def comp_def)
  with scd_window_lineage [of L k df] product_example show ?thesis by blast
qed

theorem scd_window_end_dates_witness:
  "filter (\<lambda>r. prd_key r = Some ''AA-BB'')
       (scd_window (map (convert_product_dates iso_date) [product_2022, product_2021])) \<noteq> []
   \<and> map prd_end_dt (filter (\<lambda>r. prd_key r = Some ''AA-BB'')
       (scd_window (map (convert_product_dates iso_date) [product_2022, product_2021])))
     = map (\<lambda>s. map_option (\<lambda>d. d - 1) (prd_start_dt s))
         (tl (filter (\<lambda>r. prd_key r = Some ''AA-BB'')
           (scd_window (map (convert_product_dates iso_date) [product_2022, product_2021]))))
       @ [None]
   \<and> map prd_end_dt (filter (\<lambda>r. prd_key r = Some ''AA-BB'')
       (scd_window (map (convert_product_dates iso_date) [product_2022, product_2021])))
     = [Some (ymd 2021 12 31), None]"
proof -
  have ne: "filter (\<lambda>r. prd_key r = Some ''AA-BB'')
       (scd_window (map (convert_product_dates iso_date) [product_2022, product_2021])) \<noteq> []"
    by code_simp
  have v: "map prd_end_dt (filter (\<lambda>r. prd_key r = Some ''AA-BB'')
       (scd_window (map (convert_product_dates iso_date) [product_2022, product_2021])))
     = [Some (ymd 2021 12 31), None]"
    by code_simp
  from ne scd_window_end_dates
    [of "filter (\<lambda>r. prd_key r = Some ''AA-BB'')
       (scd_window (map (convert_product_dates iso_date) [product_2022, product_2021]))"
      "''AA-BB''" "map (convert_product_dates iso_date) [product_2022, product_2021]"]
  have "map prd_end_dt (filter (\<lambda>r. prd_key r = Some ''AA-BB'')
       (scd_window (map (convert_product_dates iso_date) [product_2022, product_2021])))
     = map (\<lambda>s. map_option (\<lambda>d. d - 1) (prd_start_dt s))
         (tl (filter (\<lambda>r. prd_key r = Some ''AA-BB'')
           (scd_window (map (convert_product_dates iso_date) [product_2022, product_2021]))))
       @ [None]"
    by blast
  with ne v show ?thesis by blast
qed

subsection \<open>The demographics frame\<close>

lemma image_drop_duplicates: "col ` set (drop_duplicates col xs) = col ` set xs"
  by (induction col xs rule: drop_duplicates.induct) auto

lemma drop_duplicates_Nil: "drop_duplicates col xs = [] \<longleftrightarrow> xs = []"
  by (cases xs) simp_all

lemma az12_Inr:
  "clean_erp_customer_az12 parse today df = Inr out \<Longrightarrow>
     out = map (\<lambda>r. r\<lparr>bdate := drop_future today (bdate r), gen := clean_gen (gen r)\<rparr>)
             (map (convert_az12_row parse) (drop_duplicates cid (dropna cid df)))"
  by (simp add: clean_erp_customer_az12_def Let_def split: if_splits)

lemma az12_keys:
  assumes "clean_erp_customer_az12 parse today df = Inr out"
  shows "map cid out
     = map (map_option strip_nas) (map cid (drop_duplicates cid (dropna cid df)))"
  by (simp add: az12_Inr [OF assms] convert_az12_row_def comp_def)

lemma az12_raw_keys:
  "distinct (map cid (drop_duplicates cid (dropna cid df)))"
  "set (map cid (drop_duplicates cid (dropna cid df))) = set (map cid df) - {None}"
proof -
  show "distinct (map cid (drop_duplicates cid (dropna cid df)))"
    by (rule distinct_drop_duplicates)
  have "cid ` set (dropna cid df) = cid ` set df - {None}"
    by (auto simp: dropna_def isna_def)
  then show "set (map cid (drop_duplicates cid (dropna cid df))) = set (map cid df) - {None}"
    by (simp add: image_drop_duplicates)
qed

lemma az12_returns:
  "(\<exists>out. clean_erp_customer_az12 parse today df = Inr out) \<longleftrightarrow>
     dropna cid df = []
     \<or> (\<exists>r \<in> set (drop_duplicates cid (dropna cid df)).
           to_datetime_date parse (bdate r) \<noteq> None)"
  by (auto simp: clean_erp_customer_az12_def Let_def list_all_iff isna_def
      convert_az12_row_def drop_duplicates_Nil)

subsection \<open>C10: Customer Demographic keys are deduplicated before the prefix is stripped\<close>

lemma strip_nas_examples: "strip_nas ''NAS123'' = ''123''" "strip_nas ''123'' = ''123''"
  by (simp_all add: strip_nas_def)

text \<open>
  Claim C10. In the Customer Demographic pipeline duplicate removal on \<^verbatim>\<open>cid\<close> works
  on the raw key values, before the \<^verbatim>\<open>NAS\<close> prefix is stripped. Whenever the loader
  has an output (it has one exactly when no row has a key, or a birth date of a
  surviving row parses), the output keys are the stripped forms of a list of raw keys
  that holds every raw key that is not missing exactly once: one output row for each
  distinct raw key. For the record set with the raw keys \<^verbatim>\<open>NAS123\<close>, \<^verbatim>\<open>123\<close> and
  \<^verbatim>\<open>NAS123\<close> again, the second \<^verbatim>\<open>NAS123\<close> row is removed as a duplicate, the other
  two records survive, and the output holds two records with the same key \<^verbatim>\<open>123\<close>,
  whatever the processing date and the date parser, provided it reads the birth date.
\<close>

theorem az12_duplicate_keys_after_strip:
  "(clean_erp_customer_az12 parse today df = Inr out \<longrightarrow>
      (\<exists>ks. map cid out = map (map_option strip_nas) ks
            \<and> distinct ks \<and> set ks = set (map cid df) - {None})
      \<and> length out = card (set (map cid df) - {None}))
   \<and> ((\<exists>out. clean_erp_customer_az12 parse today df = Inr out) \<longleftrightarrow>
        dropna cid df = []
        \<or> (\<exists>r \<in> set (drop_duplicates cid (dropna cid df)).
              to_datetime_date parse (bdate r) \<noteq> None))
   \<and> (parse ''1980-05-17'' \<noteq> None \<longrightarrow>
        (\<exists>out. clean_erp_customer_az12 parse today az12_nas = Inr out
               \<and> map cid out = [Some ''123'', Some ''123'']
               \<and> \<not> distinct (map cid out)))"
proof -
  have 1: "(\<exists>ks. map cid out = map (map_option strip_nas) ks
            \<and> distinct ks \<and> set ks = set (map cid df) - {None})
      \<and> length out = card (set (map cid df) - {None})"
    if o: "clean_erp_customer_az12 parse today df = Inr out"
  proof -
    let ?ks = "map cid (drop_duplicates cid (dropna cid df))"
    note k = az12_keys [OF o] and r = az12_raw_keys [of df]
    from k have "length (map cid out) = length (map (map_option strip_nas) ?ks)" by simp
    then have "length out = length ?ks" by simp
    also have "\<dots> = card (set ?ks)" using r(1) by (simp only: distinct_card)
    finally have "length out = card (set (map cid df) - {None})" by (simp only: r(2))
    with k r show ?thesis by blast
  qed
  have 3: "\<exists>out. clean_erp_customer_az12 parse today az12_nas = Inr out
               \<and> map cid out = [Some ''123'', Some ''123'']
               \<and> \<not> distinct (map cid out)"
    if p: "parse ''1980-05-17'' \<noteq> None"
  proof -
    have d: "drop_duplicates cid (dropna cid az12_nas) = [az12_nas ! 0, az12_nas ! 1]"
      by (simp add: az12_nas_def dropna_def isna_def)
    have "\<exists>r \<in> set (drop_duplicates cid (dropna cid az12_nas)).
        to_datetime_date parse (bdate r) \<noteq> None"
      using p by (simp add: d) (simp add: az12_nas_def to_datetime_date_def)
    with az12_returns [of parse today az12_nas]
    obtain out where o: "clean_erp_customer_az12 parse today az12_nas = Inr out"
      by blast
    have "map cid out = [Some ''123'', Some ''123'']"
      by (simp add: az12_keys [OF o] d) (simp add: az12_nas_def strip_nas_examples)
    with o show ?thesis by auto
  qed
  from 1 3 az12_returns [of parse today df] show ?thesis by blast
qed

theorem az12_duplicate_keys_after_strip_witness:
  "clean_erp_customer_az12 iso_date (ymd 2024 1 1) az12_nas
     = Inr [\<lparr>cid = Some ''123'', bdate = Some (ymd 1980 5 17), gen = Some ''Female''\<rparr>,
            \<lparr>cid = Some ''123'', bdate = Some (ymd 1980 5 17), gen = Some ''Male''\<rparr>]
   \<and> (\<exists>ks. map cid [\<lparr>cid = Some ''123'', bdate = Some (ymd 1980 5 17), gen = Some ''Female''\<rparr>,
                     \<lparr>cid = Some ''123'', bdate = Some (ymd 1980 5 17), gen = Some ''Male''\<rparr>]
              = map (map_option strip_nas) ks
            \<and> distinct ks \<and> set ks = set (map cid az12_nas) - {None})
   \<and> card (set (map cid az12_nas) - {None}) = 2
   \<and> iso_date ''1980-05-17'' \<noteq> None
   \<and> (\<exists>out. clean_erp_customer_az12 iso_date (ymd 2024 1 1) az12_nas = Inr out
          \<and> map cid out = [Some ''123'', Some ''123''] \<and> \<not> distinct (map cid out))"
proof -
  let ?out = "[\<lparr>cid = Some ''123'', bdate = Some (ymd 1980 5 17), gen = Some ''Female''\<rparr>,
            \<lparr>cid = Some ''123'', bdate = Some (ymd 1980 5 17), gen = Some ''Male''\<rparr>]"
  have c: "clean_erp_customer_az12 iso_date (ymd 2024 1 1) az12_nas = Inr ?out"
    by code_simp
  have p: "iso_date ''1980-05-17'' \<noteq> None"
    by code_simp
  note t = az12_duplicate_keys_after_strip
    [of iso_date "ymd 2024 1 1" az12_nas ?out]
  from c t have 1: "(\<exists>ks. map cid ?out = map (map_option strip_nas) ks
            \<and> distinct ks \<and> set ks = set (map cid az12_nas) - {None})"
    and 2: "length ?out = card (set (map cid az12_nas) - {None})"
    by blast+
  from 2 have 3: "card (set (map cid az12_nas) - {None}) = 2" by simp
  from p t have 4: "\<exists>out. clean_erp_customer_az12 iso_date (ymd 2024 1 1) az12_nas = Inr out
          \<and> map cid out = [Some ''123'', Some ''123''] \<and> \<not> distinct (map cid out)"
    by blast
  from c 1 3 p 4 show ?thesis by blast
qed

subsection \<open>Business keys in the cleansed frames\<close>

lemma customer_keys:
  "map cust_id (clean_crm_customer_info parse c)
     = map cust_id (drop_duplicates cust_id
         (sort_key (\<lambda>r. (asc_key (cust_id r), desc_key (cst_create_date r)))
            (map (convert_create_date parse) (dropna cust_id c))))"
  by (simp add: clean_crm_customer_info_def Let_def comp_def)

lemma customer_key_set:
  "set (map cust_id (clean_crm_customer_info parse c)) = set (map cust_id c) - {None}"
proof -
  have "cust_id ` set (map (convert_create_date parse) (dropna cust_id c))
      = cust_id ` set (dropna cust_id c)"
    by (simp add: image_image)
  also have "\<dots> = cust_id ` set c - {None}"
    by (auto simp: dropna_def isna_def)
  finally show ?thesis
    by (simp add: customer_keys image_drop_duplicates)
qed

lemma customer_key_distinct: "distinct (map cust_id (clean_crm_customer_info parse c))"
  by (simp add: customer_keys distinct_drop_duplicates)

lemma derive_end_dt_keys: "map prd_key (derive_end_dt S) = map prd_key S"
  by (induction S) (simp_all add: derive_end_dt_Cons)

lemma scd_window_key_set: "prd_key ` set (scd_window df) = prd_key ` set df"
proof -
  have "set (map prd_key (scd_window df))
      = set (map prd_key (sort_key (\<lambda>r. (asc_key (prd_key r), asc_key (prd_start_dt r))) df))"
    by (simp only: scd_window_def derive_end_dt_keys)
  then show ?thesis by simp
qed

lemma product_keys_present:
  assumes "r \<in> set (clean_crm_product_info parse p)"
  shows "prd_key r \<noteq> None \<and> category_id r \<noteq> None"
proof -
  from assms obtain t
    where t: "t \<in> set (scd_window (map (convert_product_dates parse) (dropna prd_key p)))"
      and r: "r = split_product_key t"
    by (auto simp: clean_crm_product_info_def Let_def)
  from t have "prd_key t \<in> prd_key ` set (map (convert_product_dates parse) (dropna prd_key p))"
    using scd_window_key_set [of "map (convert_product_dates parse) (dropna prd_key p)"] by blast
  then have "prd_key t \<noteq> None"
    by (auto simp: convert_product_dates_def dropna_def isna_def)
  with r show ?thesis by (auto simp: split_product_key_def)
qed

lemma product_key_multiset:
  "mset (map prd_key (clean_crm_product_info parse p))
     = mset (map (map_option (drop 6)) (filter (\<lambda>k. k \<noteq> None) (map prd_key p)))"
proof -
  let ?df2 = "map (convert_product_dates parse) (dropna prd_key p)"
  have 1: "map prd_key (clean_crm_product_info parse p)
      = map (map_option (drop 6)) (map prd_key (scd_window ?df2))"
    by (simp add: clean_crm_product_info_def Let_def split_product_key_def comp_def)
  have 2: "map prd_key (scd_window ?df2)
      = map prd_key (sort_key (\<lambda>r. (asc_key (prd_key r), asc_key (prd_start_dt r))) ?df2)"
    by (simp only: scd_window_def derive_end_dt_keys)
  have "mset (map prd_key (sort_key (\<lambda>r. (asc_key (prd_key r), asc_key (prd_start_dt r))) ?df2))
      = mset (map prd_key ?df2)"
    by (simp only: mset_map mset_sort)
  also have "map prd_key ?df2 = filter (\<lambda>k. k \<noteq> None) (map prd_key p)"
    by (simp add: dropna_def isna_def convert_product_dates_def comp_def filter_map)
  finally have "mset (map prd_key (scd_window ?df2))
      = mset (filter (\<lambda>k. k \<noteq> None) (map prd_key p))"
    by (simp only: 2)
  then have "mset (map (map_option (drop 6)) (map prd_key (scd_window ?df2)))
      = mset (map (map_option (drop 6)) (filter (\<lambda>k. k \<noteq> None) (map prd_key p)))"
    by (simp only: mset_map)
  then show ?thesis by (simp only: 1)
qed

lemma az12_keys_present:
  assumes "clean_erp_customer_az12 parse today a = Inr out" and "r \<in> set out"
  shows "cid r \<noteq> None"
proof -
  let ?ks = "map cid (drop_duplicates cid (dropna cid a))"
  have "set (map cid out) = set (map (map_option strip_nas) ?ks)"
    by (rule arg_cong [where f = set]) (rule az12_keys [OF assms(1)])
  also have "\<dots> = map_option strip_nas ` set ?ks" by (rule set_map)
  also have "set ?ks = set (map cid a) - {None}" by (rule az12_raw_keys(2))
  finally have "set (map cid out) = map_option strip_nas ` (set (map cid a) - {None})" .
  moreover from assms(2) have "cid r \<in> set (map cid out)" by simp
  ultimately have "cid r \<in> map_option strip_nas ` (set (map cid a) - {None})" by simp
  then show ?thesis by auto
qed

lemma location_keys_present:
  "r \<in> set (clean_erp_location_a101 l) \<Longrightarrow> cid r \<noteq> None"
  using set_drop_duplicates [of cid "dropna cid l"]
  by (auto simp: clean_erp_location_a101_def clean_location_row_def Let_def dropna_def isna_def)

lemma zip_columns:
  "map (\<lambda>(r, a, b, c). g r a b c) (zip df (zip (map f1 df) (zip (map f2 df) (map f3 df))))
     = map (\<lambda>r. g r (f1 r) (f2 r) (f3 r)) df"
  by (induction df) simp_all

lemma clean_yyyymmdd_Inr:
  "clean_yyyymmdd parse col = Inr out \<Longrightarrow> out = map (yyyymmdd_cell parse) col"
  by (simp add: clean_yyyymmdd_def split: if_splits)

text \<open>When the sales cleansing returns, it returns one row for each raw row, in order.\<close>

lemma sales_Inr:
  assumes "clean_crm_sales_details parse ops df = Inr out"
  shows "out = map (\<lambda>r. reconcile_sales ops
                 (with_dates r (yyyymmdd_cell parse (sls_order_dt r))
                    (yyyymmdd_cell parse (sls_ship_dt r))
                    (yyyymmdd_cell parse (sls_due_dt r)))) df"
proof -
  from assms obtain a b c
    where a: "clean_yyyymmdd parse (map sls_order_dt df) = Inr a"
      and b: "clean_yyyymmdd parse (map sls_ship_dt df) = Inr b"
      and c: "clean_yyyymmdd parse (map sls_due_dt df) = Inr c"
      and o: "out = map (reconcile_sales ops)
                 (map (\<lambda>(r, a, b, c). with_dates r a b c) (zip df (zip a (zip b c))))"
    by (auto simp: clean_crm_sales_details_def split: sum.splits)
  note cols = clean_yyyymmdd_Inr [OF a] clean_yyyymmdd_Inr [OF b] clean_yyyymmdd_Inr [OF c]
  have "map (\<lambda>(r, a, b, c). with_dates r a b c) (zip df (zip a (zip b c)))
      = map (\<lambda>r. with_dates r (yyyymmdd_cell parse (sls_order_dt r))
                    (yyyymmdd_cell parse (sls_ship_dt r))
                    (yyyymmdd_cell parse (sls_due_dt r))) df"
    unfolding cols map_map
    using zip_columns [of with_dates df "yyyymmdd_cell parse \<circ> sls_order_dt"
        "yyyymmdd_cell parse \<circ> sls_ship_dt" "yyyymmdd_cell parse \<circ> sls_due_dt"]
    by (simp add: comp_def)
  with o show ?thesis by (simp add: comp_def)
qed

lemma sales_order_numbers:
  assumes "clean_crm_sales_details parse ops df = Inr out"
  shows "map sls_ord_num out = map sls_ord_num df"
  by (simp add: sales_Inr [OF assms] comp_def reconcile_sales_def Let_def with_dates_def)

subsection \<open>C2: key integrity\<close>

text \<open>
  Claim C2 says that no cleansed record of a keyed entity has a missing business key,
  that the Customer and Product outputs hold at most one record per business key, and
  that the Product Category pipeline discards records whose key is missing. The Product
  Category frame is loaded as it was read, so a record with a missing \<^verbatim>\<open>id\<close> stays.
  The Product pipeline has no deduplication step, so a Product row that occurs twice in
  the raw table occurs twice in the output, with the same category, product code and
  start date; and it drops rows on the product key only, so a row whose start date does
  not parse stays, with a part of its business key missing. The Sales Line pipeline
  drops no row: a line whose order number is missing stays.
\<close>

theorem key_integrity_counterexample:
  "map id_col (clean_erp_product_category [category_nokey]) = [None]
   \<and> \<not> distinct (map (\<lambda>r. (category_id r, prd_key r, prd_start_dt r))
         (clean_crm_product_info iso_date [product_bike, product_bike]))
   \<and> map (\<lambda>r. (category_id r, prd_key r, prd_start_dt r))
         (clean_crm_product_info iso_date [product_undated])
       = [(Some ''AB_CD'', Some ''1234'', None)]
   \<and> map_sum id (map sls_ord_num)
         (clean_crm_sales_details strptime_Ymd float64_ops [sales_noorder])
       = Inr [None]"
  by code_simp

text \<open>
  Claim C2 as amended. For Customer, Customer Demographic and Location, no record in the
  cleansed output has a missing business key (records whose key is missing are
  discarded), and the Customer output contains exactly one record for every key that is
  not missing in the input, so at most one record per business key. For Product, no
  record in the cleansed output has a missing product code or category id: the records
  whose raw product key is missing are discarded and every other raw record is kept,
  with its product code, so the Product output keeps every historical row and is not
  deduplicated; the start date of a Product record is not part of what is checked. The
  Sales Line output keeps every raw record, in order, with the order number it came
  with.
\<close>

theorem key_integrity:
  "(\<forall>r \<in> set (clean_crm_customer_info parse c). cust_id r \<noteq> None)
   \<and> distinct (map cust_id (clean_crm_customer_info parse c))
   \<and> set (map cust_id (clean_crm_customer_info parse c)) = set (map cust_id c) - {None}
   \<and> (\<forall>r \<in> set (clean_crm_product_info parse p).
         prd_key r \<noteq> None \<and> category_id r \<noteq> None)
   \<and> mset (map prd_key (clean_crm_product_info parse p))
       = mset (map (map_option (drop 6)) (filter (\<lambda>k. k \<noteq> None) (map prd_key p)))
   \<and> (clean_erp_customer_az12 parse today a = Inr az \<longrightarrow> (\<forall>r \<in> set az. cid r \<noteq> None))
   \<and> (\<forall>r \<in> set (clean_erp_location_a101 l). cid r \<noteq> None)
   \<and> (clean_crm_sales_details strptime ops s = Inr sl \<longrightarrow>
        map sls_ord_num sl = map sls_ord_num s)"
proof -
  have "\<forall>r \<in> set (clean_crm_customer_info parse c). cust_id r \<noteq> None"
  proof
    fix r
    assume "r \<in> set (clean_crm_customer_info parse c)"
    then have "cust_id r \<in> set (map cust_id (clean_crm_customer_info parse c))" by simp
    then show "cust_id r \<noteq> None" unfolding customer_key_set by auto
  qed
  then show ?thesis
    using customer_key_distinct [of parse c] customer_key_set [of parse c]
      product_keys_present [of _ parse p] product_key_multiset [of parse p]
      az12_keys_present [of parse today a az]
      location_keys_present [of _ l] sales_order_numbers [of strptime ops s sl]
    by blast
qed

theorem key_integrity_witness:
  "list_all (\<lambda>r. cust_id r \<noteq> None)
       (clean_crm_customer_info iso_date [customer_nokey, customer_jan, customer_jun])
   \<and> map cust_id (clean_crm_customer_info iso_date [customer_nokey, customer_jan, customer_jun])
       = [Some 11]
   \<and> list_all (\<lambda>r. prd_key r \<noteq> None \<and> category_id r \<noteq> None)
       (clean_crm_product_info iso_date [product_nokey, product_bike])
   \<and> map prd_key (clean_crm_product_info iso_date [product_nokey, product_bike])
       = [Some ''1234'']
   \<and> clean_erp_customer_az12 iso_date (ymd 2024 1 1) az12_frame
       = Inr [\<lparr>cid = Some ''AW00011000'', bdate = Some (ymd 1971 10 6), gen = Some ''Male''\<rparr>]
   \<and> list_all (\<lambda>r. cid r \<noteq> None)
       [\<lparr>cid = Some ''AW00011000'', bdate = Some (ymd 1971 10 6), gen = Some ''Male''\<rparr>]
   \<and> list_all (\<lambda>r. cid r \<noteq> None) (clean_erp_location_a101 location_frame)
   \<and> map cid (clean_erp_location_a101 location_frame) = [Some ''AW00011000'']
   \<and> map_sum id (map sls_ord_num)
         (clean_crm_sales_details strptime_Ymd float64_ops [sales_noorder, sales_line])
       = Inr [None, Some ''SO43697'']"
proof -
  let ?az = "[\<lparr>cid = Some ''AW00011000'', bdate = Some (ymd 1971 10 6), gen = Some ''Male''\<rparr>]"
  obtain sl where sl: "clean_crm_sales_details strptime_Ymd float64_ops [sales_noorder, sales_line]
      = Inr sl"
    by (cases "clean_crm_sales_details strptime_Ymd float64_ops [sales_noorder, sales_line]")
      (simp_all add: clean_crm_sales_details_def clean_yyyymmdd_def isna_def sales_noorder_def
        sales_line_def split: sum.splits)
  have az: "clean_erp_customer_az12 iso_date (ymd 2024 1 1) az12_frame = Inr ?az"
    by code_simp
  note ki = key_integrity [where parse = iso_date
      and c = "[customer_nokey, customer_jan, customer_jun]"
      and p = "[product_nokey, product_bike]"
      and today = "ymd 2024 1 1" and a = az12_frame and az = ?az and l = location_frame
      and strptime = strptime_Ymd and ops = float64_ops
      and s = "[sales_noorder, sales_line]" and sl = sl]
  have 1: "list_all (\<lambda>r. cust_id r \<noteq> None)
       (clean_crm_customer_info iso_date [customer_nokey, customer_jan, customer_jun])"
    unfolding list_all_iff using ki by blast
  have 2: "list_all (\<lambda>r. prd_key r \<noteq> None \<and> category_id r \<noteq> None)
       (clean_crm_product_info iso_date [product_nokey, product_bike])"
    unfolding list_all_iff using ki by blast
  have 3: "list_all (\<lambda>r. cid r \<noteq> None) ?az"
    unfolding list_all_iff using ki az by blast
  have 4: "list_all (\<lambda>r. cid r \<noteq> None) (clean_erp_location_a101 location_frame)"
    unfolding list_all_iff using ki by blast
  have 5: "map cust_id
       (clean_crm_customer_info iso_date [customer_nokey, customer_jan, customer_jun])
       = [Some 11]"
    by code_simp
  have 6: "map prd_key (clean_crm_product_info iso_date [product_nokey, product_bike])
       = [Some ''1234'']"
    by code_simp
  have 8: "map cid (clean_erp_location_a101 location_frame) = [Some ''AW00011000'']"
    by code_simp
  from ki sl have m: "map sls_ord_num sl = map sls_ord_num [sales_noorder, sales_line]"
    by blast
  have 9: "map_sum id (map sls_ord_num)
         (clean_crm_sales_details strptime_Ymd float64_ops [sales_noorder, sales_line])
       = Inr [None, Some ''SO43697'']"
    by (simp only: sl map_sum.simps id_apply m) (simp add: sales_noorder_def sales_line_def)
  from 1 2 3 4 5 6 az 8 9 show ?thesis by blast
qed

subsection \<open>The loaders and \<^verbatim>\<open>main\<close>\<close>

text \<open>What a loader whose cleansing cannot raise does to the world.\<close>

lemma loader_pattern:
  "try_except
     (read_sql e t sel (\<lambda>f. block
        [write_silver e t Truncate c1, write_silver e t To_sql (c2 f), print_line (Loaded t)]))
     (\<lambda>x. print_line (Failed_loading x)) w
   = (None,
      (case io_error e t Read_sql of
         Some x \<Rightarrow> w\<lparr>console := console w @ [Failed_loading x]\<rparr>
       | None \<Rightarrow>
          (case io_error e t Truncate of
             Some x \<Rightarrow> w\<lparr>console := console w @ [Failed_loading x]\<rparr>
           | None \<Rightarrow>
              (case io_error e t To_sql of
                 Some x \<Rightarrow> w\<lparr>silver_zone := c1 (silver_zone w),
                              console := console w @ [Failed_loading x]\<rparr>
               | None \<Rightarrow> w\<lparr>silver_zone := c2 (sel (bronze_zone w)) (c1 (silver_zone w)),
                            console := console w @ [Loaded t]\<rparr>))))"
  by (simp add: try_except_def read_sql_def write_silver_def print_line_def
      split: option.splits)

text \<open>What a loader whose cleansing can raise does to the world.\<close>

lemma loader_pattern_cleanse:
  "try_except
     (read_sql e t sel (\<lambda>f. cleanse (cl f) (\<lambda>df. block
        [write_silver e t Truncate c1, write_silver e t To_sql (c2 df), print_line (Loaded t)])))
     (\<lambda>x. print_line (Failed_loading x)) w
   = (None,
      (case io_error e t Read_sql of
         Some x \<Rightarrow> w\<lparr>console := console w @ [Failed_loading x]\<rparr>
       | None \<Rightarrow>
          (case cl (sel (bronze_zone w)) of
             Inl x \<Rightarrow> w\<lparr>console := console w @ [Failed_loading x]\<rparr>
           | Inr df \<Rightarrow>
              (case io_error e t Truncate of
                 Some x \<Rightarrow> w\<lparr>console := console w @ [Failed_loading x]\<rparr>
               | None \<Rightarrow>
                  (case io_error e t To_sql of
                     Some x \<Rightarrow> w\<lparr>silver_zone := c1 (silver_zone w),
                                  console := console w @ [Failed_loading x]\<rparr>
                   | None \<Rightarrow> w\<lparr>silver_zone := c2 df (c1 (silver_zone w)),
                                console := console w @ [Loaded t]\<rparr>)))))"
  by (simp add: try_except_def read_sql_def cleanse_def write_silver_def print_line_def
      split: option.splits sum.splits)

lemmas loader_defs = load_crm_customer_info_def load_crm_product_info_def load_crm_sales_details_def load_erp_customer_az12_def load_erp_location_a101_def load_erp_product_category_def

lemma loaders_return:
  "fst (load_crm_customer_info e w) = None"
  "fst (load_crm_product_info e w) = None"
  "fst (load_crm_sales_details e w) = None"
  "fst (load_erp_customer_az12 e w) = None"
  "fst (load_erp_location_a101 e w) = None"
  "fst (load_erp_product_category e w) = None"
  by (simp_all add: loader_defs Let_def loader_pattern loader_pattern_cleanse)

lemma loaders_bronze:
  "bronze_zone (snd (load_crm_customer_info e w)) = bronze_zone w"
  "bronze_zone (snd (load_crm_product_info e w)) = bronze_zone w"
  "bronze_zone (snd (load_crm_sales_details e w)) = bronze_zone w"
  "bronze_zone (snd (load_erp_customer_az12 e w)) = bronze_zone w"
  "bronze_zone (snd (load_erp_location_a101 e w)) = bronze_zone w"
  "bronze_zone (snd (load_erp_product_category e w)) = bronze_zone w"
  by (simp_all add: loader_defs Let_def loader_pattern loader_pattern_cleanse
      split: option.splits sum.splits)

lemma loaders_console:
  "console (snd (load_crm_customer_info e w)) = console w @ [outcome e (bronze_zone w) Crm_customer_info]"
  "console (snd (load_crm_product_info e w)) = console w @ [outcome e (bronze_zone w) Crm_product_info]"
  "console (snd (load_crm_sales_details e w)) = console w @ [outcome e (bronze_zone w) Crm_sales_details]"
  "console (snd (load_erp_customer_az12 e w)) = console w @ [outcome e (bronze_zone w) Erp_customer_az12]"
  "console (snd (load_erp_location_a101 e w)) = console w @ [outcome e (bronze_zone w) Erp_location_a101]"
  "console (snd (load_erp_product_category e w)) = console w @ [outcome e (bronze_zone w) Erp_product_category]"
  by (simp_all add: loader_defs Let_def loader_pattern loader_pattern_cleanse outcome_def
      first_error_def cleansing_error_def error_of_def split: option.splits sum.splits)

lemma silver_after_crm_customer_info:
  "silver_zone (snd (load_crm_customer_info e w))
   = (silver_zone w)\<lparr>silver_crm_customer_info :=
        table_after e (bronze_zone w) Crm_customer_info (silver_crm_customer_info (silver_zone w))
          (stamp (timestamp_now e (Load_timestamp Crm_customer_info))
             (clean_crm_customer_info (to_datetime e)
                (bronze_crm_customer_info (bronze_zone w))))\<rparr>"
  by (simp add: load_crm_customer_info_def Let_def loader_pattern loader_pattern_cleanse table_after_def
      cleansing_error_def error_of_def frame_of_def split: option.splits sum.splits)

lemma silver_after_crm_product_info:
  "silver_zone (snd (load_crm_product_info e w))
   = (silver_zone w)\<lparr>silver_crm_product_info :=
        table_after e (bronze_zone w) Crm_product_info (silver_crm_product_info (silver_zone w))
          (stamp (timestamp_now e (Load_timestamp Crm_product_info))
             (clean_crm_product_info (to_datetime e)
                (bronze_crm_product_info (bronze_zone w))))\<rparr>"
  by (simp add: load_crm_product_info_def Let_def loader_pattern loader_pattern_cleanse table_after_def
      cleansing_error_def error_of_def frame_of_def split: option.splits sum.splits)

lemma silver_after_crm_sales_details:
  "silver_zone (snd (load_crm_sales_details e w))
   = (silver_zone w)\<lparr>silver_crm_sales_details :=
        table_after e (bronze_zone w) Crm_sales_details (silver_crm_sales_details (silver_zone w))
          (stamp (timestamp_now e (Load_timestamp Crm_sales_details))
             (frame_of (clean_crm_sales_details (to_datetime_Ymd e) (sales_ops e)
                (bronze_crm_sales_details (bronze_zone w)))))\<rparr>"
  by (simp add: load_crm_sales_details_def Let_def loader_pattern loader_pattern_cleanse table_after_def
      cleansing_error_def error_of_def frame_of_def split: option.splits sum.splits)

lemma silver_after_erp_customer_az12:
  "silver_zone (snd (load_erp_customer_az12 e w))
   = (silver_zone w)\<lparr>silver_erp_customer_az12 :=
        table_after e (bronze_zone w) Erp_customer_az12 (silver_erp_customer_az12 (silver_zone w))
          (stamp (timestamp_now e (Load_timestamp Erp_customer_az12))
             (frame_of (clean_erp_customer_az12 (to_datetime e) (fst (timestamp_now e Today))
                (bronze_erp_customer_az12 (bronze_zone w)))))\<rparr>"
  by (simp add: load_erp_customer_az12_def Let_def loader_pattern loader_pattern_cleanse table_after_def
      cleansing_error_def error_of_def frame_of_def split: option.splits sum.splits)

lemma silver_after_erp_location_a101:
  "silver_zone (snd (load_erp_location_a101 e w))
   = (silver_zone w)\<lparr>silver_erp_location_a101 :=
        table_after e (bronze_zone w) Erp_location_a101 (silver_erp_location_a101 (silver_zone w))
          (stamp (timestamp_now e (Load_timestamp Erp_location_a101))
             (clean_erp_location_a101 (bronze_erp_location_a101 (bronze_zone w))))\<rparr>"
  by (simp add: load_erp_location_a101_def Let_def loader_pattern loader_pattern_cleanse table_after_def
      cleansing_error_def error_of_def frame_of_def split: option.splits sum.splits)

lemma silver_after_erp_product_category:
  "silver_zone (snd (load_erp_product_category e w))
   = (silver_zone w)\<lparr>silver_erp_product_category :=
        table_after e (bronze_zone w) Erp_product_category (silver_erp_product_category (silver_zone w))
          (stamp (timestamp_now e (Load_timestamp Erp_product_category))
             (clean_erp_product_category (bronze_erp_product_category (bronze_zone w))))\<rparr>"
  by (simp add: load_erp_product_category_def Let_def loader_pattern loader_pattern_cleanse table_after_def
      cleansing_error_def error_of_def frame_of_def split: option.splits sum.splits)

lemmas silver_after_loader = silver_after_crm_customer_info silver_after_crm_product_info silver_after_crm_sales_details silver_after_erp_customer_az12 silver_after_erp_location_a101 silver_after_erp_product_category

lemma block_step: "fst (s w) = None \<Longrightarrow> block (s # ss) w = block ss (snd (s w))"
  by (cases "s w") auto

lemma block_snd: "fst (s w) = None \<Longrightarrow> snd (block (s # ss) w) = snd (block ss (snd (s w)))"
  by (simp only: block_step)

lemma try_except_normal: "fst (body w) = None \<Longrightarrow> try_except body handler w = (None, snd (body w))"
  by (cases "body w") (auto simp: try_except_def)

lemma print_line_return [simp]: "fst (print_line l w) = None"
  "console (snd (print_line l w)) = console w @ [l]"
  by (simp_all add: print_line_def)

lemma print_line_zones [simp]:
  "silver_zone (snd (print_line l w)) = silver_zone w"
  "bronze_zone (snd (print_line l w)) = bronze_zone w"
  by (simp_all add: print_line_def)

lemma prints_Nil: "prints b (block []) []"
  by (simp add: prints_def)

lemma prints_Cons:
  assumes "prints b s [l]" and "prints b (block ss) ms"
  shows "prints b (block (s # ss)) (l # ms)"
  unfolding prints_def
proof (intro allI impI)
  fix w :: world
  assume b: "bronze_zone w = b"
  with assms(1) have s: "fst (s w) = None" "console (snd (s w)) = console w @ [l]"
    "bronze_zone (snd (s w)) = b"
    by (simp_all add: prints_def)
  from s(1) have "block (s # ss) w = block ss (snd (s w))" by (rule block_step)
  with assms(2) s(2,3) show "fst (block (s # ss) w) = None
      \<and> console (snd (block (s # ss) w)) = console w @ l # ms
      \<and> bronze_zone (snd (block (s # ss) w)) = b"
    by (simp add: prints_def)
qed

lemma prints_print_line: "prints b (print_line l) [l]"
  by (simp add: prints_def)

lemma prints_loaders:
  "prints b (load_crm_customer_info e) [outcome e b Crm_customer_info]"
  "prints b (load_crm_product_info e) [outcome e b Crm_product_info]"
  "prints b (load_crm_sales_details e) [outcome e b Crm_sales_details]"
  "prints b (load_erp_customer_az12 e) [outcome e b Erp_customer_az12]"
  "prints b (load_erp_location_a101 e) [outcome e b Erp_location_a101]"
  "prints b (load_erp_product_category e) [outcome e b Erp_product_category]"
  by (simp_all add: prints_def loaders_return loaders_console loaders_bronze)

lemma prints_try_except: "prints b body ls \<Longrightarrow> prints b (try_except body handler) ls"
  unfolding prints_def
proof (intro allI impI)
  fix w :: world
  assume a: "\<forall>w. bronze_zone w = b \<longrightarrow>
      fst (body w) = None \<and> console (snd (body w)) = console w @ ls
      \<and> bronze_zone (snd (body w)) = b"
    and b: "bronze_zone w = b"
  then have "fst (body w) = None" "console (snd (body w)) = console w @ ls"
    "bronze_zone (snd (body w)) = b"
    by simp_all
  then show "fst (try_except body handler w) = None
      \<and> console (snd (try_except body handler w)) = console w @ ls
      \<and> bronze_zone (snd (try_except body handler w)) = b"
    by (cases "body w") (auto simp: try_except_def)
qed

lemma prints_main:
  "prints b (main e)
      [Starting,
       Loading Crm_customer_info, outcome e b Crm_customer_info,
       Loading Crm_product_info, outcome e b Crm_product_info,
       Loading Crm_sales_details, outcome e b Crm_sales_details,
       Loading Erp_customer_az12, outcome e b Erp_customer_az12,
       Loading Erp_location_a101, outcome e b Erp_location_a101,
       Loading Erp_product_category, outcome e b Erp_product_category,
       Completed]"
  unfolding main_def
  by (intro prints_try_except prints_Cons prints_Nil prints_print_line prints_loaders)

lemma main_world:
  "snd (main e w) =
     snd (print_line Completed
      (snd (load_erp_product_category e
      (snd (print_line (Loading Erp_product_category)
      (snd (load_erp_location_a101 e
      (snd (print_line (Loading Erp_location_a101)
      (snd (load_erp_customer_az12 e
      (snd (print_line (Loading Erp_customer_az12)
      (snd (load_crm_sales_details e
      (snd (print_line (Loading Crm_sales_details)
      (snd (load_crm_product_info e
      (snd (print_line (Loading Crm_product_info)
      (snd (load_crm_customer_info e
      (snd (print_line (Loading Crm_customer_info)
      (snd (print_line Starting w)))))))))))))))))))))))))))"
proof -
  let ?body = "block
          [print_line Starting,
           print_line (Loading Crm_customer_info), load_crm_customer_info e,
           print_line (Loading Crm_product_info), load_crm_product_info e,
           print_line (Loading Crm_sales_details), load_crm_sales_details e,
           print_line (Loading Erp_customer_az12), load_erp_customer_az12 e,
           print_line (Loading Erp_location_a101), load_erp_location_a101 e,
           print_line (Loading Erp_product_category), load_erp_product_category e,
           print_line Completed]"
  have "prints (bronze_zone w) ?body
      [Starting,
       Loading Crm_customer_info, outcome e (bronze_zone w) Crm_customer_info,
       Loading Crm_product_info, outcome e (bronze_zone w) Crm_product_info,
       Loading Crm_sales_details, outcome e (bronze_zone w) Crm_sales_details,
       Loading Erp_customer_az12, outcome e (bronze_zone w) Erp_customer_az12,
       Loading Erp_location_a101, outcome e (bronze_zone w) Erp_location_a101,
       Loading Erp_product_category, outcome e (bronze_zone w) Erp_product_category,
       Completed]"
    by (intro prints_Cons prints_Nil prints_print_line prints_loaders)
  then have "fst (?body w) = None" by (simp add: prints_def)
  then have "snd (main e w) = snd (?body w)"
    unfolding main_def by (simp add: try_except_normal)
  also have "\<dots> = snd (print_line Completed
      (snd (load_erp_product_category e
      (snd (print_line (Loading Erp_product_category)
      (snd (load_erp_location_a101 e
      (snd (print_line (Loading Erp_location_a101)
      (snd (load_erp_customer_az12 e
      (snd (print_line (Loading Erp_customer_az12)
      (snd (load_crm_sales_details e
      (snd (print_line (Loading Crm_sales_details)
      (snd (load_crm_product_info e
      (snd (print_line (Loading Crm_product_info)
      (snd (load_crm_customer_info e
      (snd (print_line (Loading Crm_customer_info)
      (snd (print_line Starting w)))))))))))))))))))))))))))"
    by (simp only: block_snd loaders_return print_line_return block.simps(1) snd_conv)
  finally show ?thesis .
qed

lemma main_bronze: "bronze_zone (snd (main e w)) = bronze_zone w"
  by (simp add: main_world loaders_bronze)

lemma main_silver:
  "silver_zone (snd (main e w)) =
     \<lparr>silver_crm_customer_info =
        table_after e (bronze_zone w) Crm_customer_info (silver_crm_customer_info (silver_zone w))
          (stamp (timestamp_now e (Load_timestamp Crm_customer_info))
             (clean_crm_customer_info (to_datetime e)
                (bronze_crm_customer_info (bronze_zone w)))),
      silver_crm_product_info =
        table_after e (bronze_zone w) Crm_product_info (silver_crm_product_info (silver_zone w))
          (stamp (timestamp_now e (Load_timestamp Crm_product_info))
             (clean_crm_product_info (to_datetime e)
                (bronze_crm_product_info (bronze_zone w)))),
      silver_crm_sales_details =
        table_after e (bronze_zone w) Crm_sales_details (silver_crm_sales_details (silver_zone w))
          (stamp (timestamp_now e (Load_timestamp Crm_sales_details))
             (frame_of (clean_crm_sales_details (to_datetime_Ymd e) (sales_ops e)
                (bronze_crm_sales_details (bronze_zone w))))),
      silver_erp_customer_az12 =
        table_after e (bronze_zone w) Erp_customer_az12 (silver_erp_customer_az12 (silver_zone w))
          (stamp (timestamp_now e (Load_timestamp Erp_customer_az12))
             (frame_of (clean_erp_customer_az12 (to_datetime e) (fst (timestamp_now e Today))
                (bronze_erp_customer_az12 (bronze_zone w))))),
      silver_erp_location_a101 =
        table_after e (bronze_zone w) Erp_location_a101 (silver_erp_location_a101 (silver_zone w))
          (stamp (timestamp_now e (Load_timestamp Erp_location_a101))
             (clean_erp_location_a101 (bronze_erp_location_a101 (bronze_zone w)))),
      silver_erp_product_category =
        table_after e (bronze_zone w) Erp_product_category (silver_erp_product_category (silver_zone w))
          (stamp (timestamp_now e (Load_timestamp Erp_product_category))
             (clean_erp_product_category (bronze_erp_product_category (bronze_zone w))))\<rparr>"
  by (simp add: main_world silver_after_loader loaders_bronze)

subsection \<open>C8: a failing entity does not stop the run\<close>

text \<open>
  Claim C8. If a storage operation (fetch, truncate or append) raises during one entity's
  pipeline, the exception is caught and logged at that pipeline's boundary and the run
  goes on with the next entity. The same holds of an exception the cleansing of an
  entity raises. Whatever the storage calls and the cleansing steps do, none of the six
  loaders raises, \<open>main\<close> returns without raising, its console shows every entity
  started and ended with its own outcome (loaded, or the failure of its own first
  failing step), the raw zone is as it was, and each of the six cleansed tables holds
  what its own loader left (its old rows, no row, or its new frame), independent of
  the failures of the other entities.
\<close>

theorem entity_failure_is_isolated:
  "fst (load_crm_customer_info e w) = None
   \<and> fst (load_crm_product_info e w) = None
   \<and> fst (load_crm_sales_details e w) = None
   \<and> fst (load_erp_customer_az12 e w) = None
   \<and> fst (load_erp_location_a101 e w) = None
   \<and> fst (load_erp_product_category e w) = None
   \<and> fst (main e w) = None
   \<and> console (snd (main e w)) = console w @
        [Starting,
         Loading Crm_customer_info, outcome e (bronze_zone w) Crm_customer_info,
         Loading Crm_product_info, outcome e (bronze_zone w) Crm_product_info,
         Loading Crm_sales_details, outcome e (bronze_zone w) Crm_sales_details,
         Loading Erp_customer_az12, outcome e (bronze_zone w) Erp_customer_az12,
         Loading Erp_location_a101, outcome e (bronze_zone w) Erp_location_a101,
         Loading Erp_product_category, outcome e (bronze_zone w) Erp_product_category,
         Completed]
   \<and> bronze_zone (snd (main e w)) = bronze_zone w
   \<and> silver_zone (snd (main e w)) =
     \<lparr>silver_crm_customer_info =
        table_after e (bronze_zone w) Crm_customer_info (silver_crm_customer_info (silver_zone w))
          (stamp (timestamp_now e (Load_timestamp Crm_customer_info))
             (clean_crm_customer_info (to_datetime e)
                (bronze_crm_customer_info (bronze_zone w)))),
      silver_crm_product_info =
        table_after e (bronze_zone w) Crm_product_info (silver_crm_product_info (silver_zone w))
          (stamp (timestamp_now e (Load_timestamp Crm_product_info))
             (clean_crm_product_info (to_datetime e)
                (bronze_crm_product_info (bronze_zone w)))),
      silver_crm_sales_details =
        table_after e (bronze_zone w) Crm_sales_details (silver_crm_sales_details (silver_zone w))
          (stamp (timestamp_now e (Load_timestamp Crm_sales_details))
             (frame_of (clean_crm_sales_details (to_datetime_Ymd e) (sales_ops e)
                (bronze_crm_sales_details (bronze_zone w))))),
      silver_erp_customer_az12 =
        table_after e (bronze_zone w) Erp_customer_az12 (silver_erp_customer_az12 (silver_zone w))
          (stamp (timestamp_now e (Load_timestamp Erp_customer_az12))
             (frame_of (clean_erp_customer_az12 (to_datetime e) (fst (timestamp_now e Today))
                (bronze_erp_customer_az12 (bronze_zone w))))),
      silver_erp_location_a101 =
        table_after e (bronze_zone w) Erp_location_a101 (silver_erp_location_a101 (silver_zone w))
          (stamp (timestamp_now e (Load_timestamp Erp_location_a101))
             (clean_erp_location_a101 (bronze_erp_location_a101 (bronze_zone w)))),
      silver_erp_product_category =
        table_after e (bronze_zone w) Erp_product_category (silver_erp_product_category (silver_zone w))
          (stamp (timestamp_now e (Load_timestamp Erp_product_category))
             (clean_erp_product_category (bronze_erp_product_category (bronze_zone w))))\<rparr>"
proof -
  from prints_main [of "bronze_zone w" e]
  have "fst (main e w) = None" and "console (snd (main e w)) = console w @
        [Starting,
         Loading Crm_customer_info, outcome e (bronze_zone w) Crm_customer_info,
         Loading Crm_product_info, outcome e (bronze_zone w) Crm_product_info,
         Loading Crm_sales_details, outcome e (bronze_zone w) Crm_sales_details,
         Loading Erp_customer_az12, outcome e (bronze_zone w) Erp_customer_az12,
         Loading Erp_location_a101, outcome e (bronze_zone w) Erp_location_a101,
         Loading Erp_product_category, outcome e (bronze_zone w) Erp_product_category,
         Completed]"
    by (simp_all add: prints_def)
  then show ?thesis
    by (simp only: loaders_return main_silver main_bronze)
qed

theorem entity_failure_is_isolated_witness:
  "fst (main flaky_env unparsed_world) = None
   \<and> console (snd (main flaky_env unparsed_world))
       = [Starting,
          Loading Crm_customer_info, Failed_loading (Exception ''truncate failed''),
          Loading Crm_product_info, Loaded Crm_product_info,
          Loading Crm_sales_details, Loaded Crm_sales_details,
          Loading Erp_customer_az12, Failed_loading bdate_compare_error,
          Loading Erp_location_a101, Loaded Erp_location_a101,
          Loading Erp_product_category, Failed_loading (Exception ''connection lost''),
          Completed]
   \<and> map row (silver_erp_location_a101 (silver_zone (snd (main flaky_env unparsed_world))))
       = [\<lparr>cid = Some ''AW00011000'', cntry = Some ''United States''\<rparr>]
   \<and> map (sls_sales \<circ> row)
         (silver_crm_sales_details (silver_zone (snd (main flaky_env unparsed_world))))
       = [Some 20]
   \<and> silver_erp_customer_az12 (silver_zone (snd (main flaky_env unparsed_world)))
       = silver_erp_customer_az12 (silver_zone unparsed_world)
   \<and> silver_erp_customer_az12 (silver_zone unparsed_world) \<noteq> []"
proof -
  have w: "bronze_crm_sales_details (bronze_zone unparsed_world) = [sales_line]"
    "bronze_erp_customer_az12 (bronze_zone unparsed_world)
       = [\<lparr>cid = Some ''AW00011002'', bdate = Some ''n/a'', gen = Some ''M''\<rparr>]"
    "bronze_erp_location_a101 (bronze_zone unparsed_world) = location_frame"
    "console unparsed_world = []"
    "silver_crm_sales_details (silver_zone unparsed_world) = []"
    "silver_erp_location_a101 (silver_zone unparsed_world) = []"
    "silver_erp_customer_az12 (silver_zone unparsed_world) \<noteq> []"
    by (simp_all add: unparsed_world_def raw_world_def)
  have e: "to_datetime flaky_env = iso_date" "to_datetime_Ymd flaky_env = strptime_Ymd"
    "sales_ops flaky_env = float64_ops" "fst (timestamp_now flaky_env Today) = ymd 2024 7 1"
    by (simp_all add: flaky_env_def)
  have io: "io_error flaky_env Crm_customer_info Read_sql = None"
    "io_error flaky_env Crm_customer_info Truncate = Some (Exception ''truncate failed'')"
    "io_error flaky_env Crm_product_info op = None"
    "io_error flaky_env Crm_sales_details op = None"
    "io_error flaky_env Erp_customer_az12 op = None"
    "io_error flaky_env Erp_location_a101 op = None"
    "io_error flaky_env Erp_product_category Read_sql = Some (Exception ''connection lost'')"
    for op
    by (simp_all add: flaky_env_def)
  have s: "map sls_sales (frame_of (clean_crm_sales_details strptime_Ymd float64_ops [sales_line]))
      = [Some 20]"
    "error_of (clean_crm_sales_details strptime_Ymd float64_ops [sales_line]) = None"
    by code_simp+
  have a: "error_of (clean_erp_customer_az12 iso_date (ymd 2024 7 1)
        [\<lparr>cid = Some ''AW00011002'', bdate = Some ''n/a'', gen = Some ''M''\<rparr>])
      = Some bdate_compare_error"
    by code_simp
  have l: "clean_erp_location_a101 location_frame
      = [\<lparr>cid = Some ''AW00011000'', cntry = Some ''United States''\<rparr>]"
    by code_simp
  have c: "cleansing_error flaky_env (bronze_zone unparsed_world) Crm_customer_info = None"
    "cleansing_error flaky_env (bronze_zone unparsed_world) Crm_product_info = None"
    "cleansing_error flaky_env (bronze_zone unparsed_world) Crm_sales_details = None"
    "cleansing_error flaky_env (bronze_zone unparsed_world) Erp_customer_az12
       = Some bdate_compare_error"
    "cleansing_error flaky_env (bronze_zone unparsed_world) Erp_location_a101 = None"
    "cleansing_error flaky_env (bronze_zone unparsed_world) Erp_product_category = None"
    by (simp_all add: cleansing_error_def w e s a)
  have o: "outcome flaky_env (bronze_zone unparsed_world) Crm_customer_info
      = Failed_loading (Exception ''truncate failed'')"
    "outcome flaky_env (bronze_zone unparsed_world) Crm_product_info = Loaded Crm_product_info"
    "outcome flaky_env (bronze_zone unparsed_world) Crm_sales_details = Loaded Crm_sales_details"
    "outcome flaky_env (bronze_zone unparsed_world) Erp_customer_az12
      = Failed_loading bdate_compare_error"
    "outcome flaky_env (bronze_zone unparsed_world) Erp_location_a101 = Loaded Erp_location_a101"
    "outcome flaky_env (bronze_zone unparsed_world) Erp_product_category
      = Failed_loading (Exception ''connection lost'')"
    by (simp_all add: outcome_def first_error_def c io)
  from entity_failure_is_isolated [of flaky_env unparsed_world] show ?thesis
    by (simp add: o table_after_def c io w e l s stamp_def comp_def)
qed

subsection \<open>Running the loader twice\<close>

lemma map_row_stamp: "map row (stamp now df) = df"
  by (simp add: stamp_def comp_def)

text \<open>
  On the same day the cleansing of a table raises in the second run what it raised in
  the first, and the table comes out the same.
\<close>

lemma cleansing_error_same_day:
  "fst (clock Today) = fst (timestamp_now e Today) \<Longrightarrow>
   cleansing_error (e\<lparr>timestamp_now := clock\<rparr>) b t = cleansing_error e b t"
  by (simp add: cleansing_error_def split: table.splits)

lemma rerun_table:
  "io_error e' = io_error e \<Longrightarrow> cleansing_error e' b t = cleansing_error e b t \<Longrightarrow>
   map row new' = map row new \<Longrightarrow>
   map row (table_after e' b t (table_after e b t old new) new')
     = map row (table_after e b t old new)"
  by (simp add: table_after_def split: option.splits)

lemma quiet_location_table:
  "table_after (quiet_env d) b Erp_location_a101 old new = new"
  "table_after ((quiet_env d)\<lparr>timestamp_now := c\<rparr>) b Erp_location_a101 old new = new"
  by (simp_all add: table_after_def cleansing_error_def quiet_env_def)

lemma az12_first_run:
  "clean_erp_customer_az12 iso_date (ymd 2024 1 1)
     (bronze_erp_customer_az12 (bronze_zone raw_world))
   = Inr [\<lparr>cid = Some ''AW00011000'', bdate = Some (ymd 1971 10 6), gen = Some ''Male''\<rparr>,
      \<lparr>cid = Some ''AW00011001'', bdate = None, gen = Some ''Female''\<rparr>]"
  by code_simp

lemma az12_second_run:
  "clean_erp_customer_az12 iso_date (ymd 2024 12 31)
     (bronze_erp_customer_az12 (bronze_zone raw_world))
   = Inr [\<lparr>cid = Some ''AW00011000'', bdate = Some (ymd 1971 10 6), gen = Some ''Male''\<rparr>,
      \<lparr>cid = Some ''AW00011001'', bdate = Some (ymd 2024 6 1), gen = Some ''Female''\<rparr>]"
  by code_simp

lemma az12_two_runs:
  "map row (silver_erp_customer_az12
      (silver_zone (snd (main (quiet_env (ymd 2024 1 1)) raw_world))))
   = [\<lparr>cid = Some ''AW00011000'', bdate = Some (ymd 1971 10 6), gen = Some ''Male''\<rparr>,
      \<lparr>cid = Some ''AW00011001'', bdate = None, gen = Some ''Female''\<rparr>]"
  "map row (silver_erp_customer_az12
      (silver_zone (snd (main (quiet_env (ymd 2024 12 31))
        (snd (main (quiet_env (ymd 2024 1 1)) raw_world))))))
   = [\<lparr>cid = Some ''AW00011000'', bdate = Some (ymd 1971 10 6), gen = Some ''Male''\<rparr>,
      \<lparr>cid = Some ''AW00011001'', bdate = Some (ymd 2024 6 1), gen = Some ''Female''\<rparr>]"
  by (simp_all add: main_silver main_bronze table_after_def cleansing_error_def error_of_def
      frame_of_def quiet_env_def az12_first_run az12_second_run map_row_stamp)

subsection \<open>C9: running the pipeline twice\<close>

text \<open>
  Claim C9 says that two runs against an unchanged raw zone leave the same cleansed zone
  but for \<^verbatim>\<open>load_timestamp\<close>. The demographics loader blanks the birth dates that lie
  after the day of the run: with a raw birth date of 2024-06-01, a run on 2024-01-01
  writes a missing birth date and a second run on 2024-12-31, against the same raw zone
  and with no storage failure in either, writes 2024-06-01.
\<close>

theorem rerun_counterexample:
  "without_load_timestamp
       (silver_zone (snd (main (quiet_env (ymd 2024 12 31))
          (snd (main (quiet_env (ymd 2024 1 1)) raw_world)))))
     \<noteq> without_load_timestamp (silver_zone (snd (main (quiet_env (ymd 2024 1 1)) raw_world)))
   \<and> bronze_zone (snd (main (quiet_env (ymd 2024 1 1)) raw_world)) = bronze_zone raw_world"
proof -
  have "map row (silver_erp_customer_az12
      (silver_zone (snd (main (quiet_env (ymd 2024 12 31))
        (snd (main (quiet_env (ymd 2024 1 1)) raw_world))))))
    \<noteq> map row (silver_erp_customer_az12
      (silver_zone (snd (main (quiet_env (ymd 2024 1 1)) raw_world))))"
    unfolding az12_two_runs by simp
  then show ?thesis
    by (auto simp: without_load_timestamp_def main_bronze)
qed

text \<open>
  Claim C9 as amended. Running the full pipeline twice against an unchanged raw zone, on
  the same processing day and with the same outcome of every storage call, produces the
  same cleansed-zone contents except for \<^verbatim>\<open>load_timestamp\<close>, whatever the cleansed
  zone held before the first run; a run does not change the raw zone. Every entity
  transformation is a function of its raw record set and, for Customer Demographic, of
  the processing date.
\<close>

theorem rerun_same_day_is_idempotent:
  "(fst (clock Today) = fst (timestamp_now e Today) \<longrightarrow>
      without_load_timestamp
          (silver_zone (snd (main (e\<lparr>timestamp_now := clock\<rparr>) (snd (main e w)))))
        = without_load_timestamp (silver_zone (snd (main e w))))
   \<and> bronze_zone (snd (main e w)) = bronze_zone w"
  by (simp add: main_silver main_bronze without_load_timestamp_def rerun_table map_row_stamp
      cleansing_error_same_day)

theorem rerun_same_day_is_idempotent_witness:
  "fst ((\<lambda>c. (ymd 2024 1 1, 5000)) Today) = fst (timestamp_now (quiet_env (ymd 2024 1 1)) Today)
   \<and> without_load_timestamp
        (silver_zone (snd (main ((quiet_env (ymd 2024 1 1))\<lparr>timestamp_now := (\<lambda>c. (ymd 2024 1 1, 5000))\<rparr>)
           (snd (main (quiet_env (ymd 2024 1 1)) raw_world)))))
      = without_load_timestamp (silver_zone (snd (main (quiet_env (ymd 2024 1 1)) raw_world)))
   \<and> map load_timestamp (silver_erp_location_a101
        (silver_zone (snd (main (quiet_env (ymd 2024 1 1)) raw_world))))
      = [(ymd 2024 1 1, 0)]
   \<and> map load_timestamp (silver_erp_location_a101
        (silver_zone (snd (main ((quiet_env (ymd 2024 1 1))\<lparr>timestamp_now := (\<lambda>c. (ymd 2024 1 1, 5000))\<rparr>)
           (snd (main (quiet_env (ymd 2024 1 1)) raw_world))))))
      = [(ymd 2024 1 1, 5000)]"
proof -
  have h: "fst ((\<lambda>c. (ymd 2024 1 1, 5000)) Today)
      = fst (timestamp_now (quiet_env (ymd 2024 1 1)) Today)"
    by (simp add: quiet_env_def)
  have l: "clean_erp_location_a101 (bronze_erp_location_a101 (bronze_zone raw_world))
      = [\<lparr>cid = Some ''AW00011000'', cntry = Some ''United States''\<rparr>]"
    by code_simp
  have s1: "map load_timestamp (silver_erp_location_a101
        (silver_zone (snd (main (quiet_env (ymd 2024 1 1)) raw_world))))
      = [(ymd 2024 1 1, 0)]"
    by (simp add: main_silver quiet_location_table l) (simp add: stamp_def quiet_env_def)
  have s2: "map load_timestamp (silver_erp_location_a101
        (silver_zone (snd (main ((quiet_env (ymd 2024 1 1))\<lparr>timestamp_now := (\<lambda>c. (ymd 2024 1 1, 5000))\<rparr>)
           (snd (main (quiet_env (ymd 2024 1 1)) raw_world))))))
      = [(ymd 2024 1 1, 5000)]"
    by (simp add: main_silver main_bronze quiet_location_table l) (simp add: stamp_def)
  from h rerun_same_day_is_idempotent
    [of "\<lambda>c. (ymd 2024 1 1, 5000)" "quiet_env (ymd 2024 1 1)" raw_world]
  have "without_load_timestamp
        (silver_zone (snd (main ((quiet_env (ymd 2024 1 1))\<lparr>timestamp_now := (\<lambda>c. (ymd 2024 1 1, 5000))\<rparr>)
           (snd (main (quiet_env (ymd 2024 1 1)) raw_world)))))
      = without_load_timestamp (silver_zone (snd (main (quiet_env (ymd 2024 1 1)) raw_world)))"
    by blast
  with h s1 s2 show ?thesis by blast
qed

end
